theory Spec2Isabelle
  imports Main "HOL-Library.Multiset"
begin

section \<open>The relational store\<close>

text \<open>
  The three relations of the schema (\<^verbatim>\<open>CREATE TABLE users / chats / messages\<close>).
  A table is the list of its rows. Timestamps are the server clock's readings, in whole
  seconds (a \<^verbatim>\<open>TIMESTAMP\<close> column without fractional part). Strings are lists of
  the units the source's own \<^verbatim>\<open>length\<close> counts. Column values are compared with HOL
  equality; the collation of the database (letter case, trailing blanks) is not modelled.
\<close>

type_synonym timestamp = nat

record user_row =
  u_id :: nat
  u_username :: string
  u_email :: string
  u_password_hash :: string
  u_theme :: string
  u_created_at :: timestamp
  u_updated_at :: timestamp

record chat_row =
  c_id :: string
  c_user_id :: nat
  c_name :: string
  c_model :: string
  c_created_at :: timestamp
  c_updated_at :: timestamp

record message_row =
  m_id :: nat
  m_chat_id :: string
  m_sender :: string
  m_content :: string
  m_model :: "string option"
  m_response_info :: "string option"
  m_timestamp :: timestamp

text \<open>The store: the three tables and the two \<^verbatim>\<open>AUTO_INCREMENT\<close> counters.\<close>

record db =
  users :: "user_row list"
  chats :: "chat_row list"
  messages :: "message_row list"
  next_user_id :: nat
  next_message_id :: nat

subsection \<open>Column domains\<close>

text \<open>
  The server runs in MySQL's default strict mode: a value outside a column's domain
  makes the statement fail instead of being truncated.
\<close>

definition varchar :: "nat \<Rightarrow> string \<Rightarrow> bool" where
  "varchar n s = (length s \<le> n)"

definition varchar_opt :: "nat \<Rightarrow> string option \<Rightarrow> bool" where
  "varchar_opt n v = (case v of None \<Rightarrow> True | Some s \<Rightarrow> varchar n s)"

definition theme_enum :: "string \<Rightarrow> bool" where
  "theme_enum s = (s = ''light'' \<or> s = ''dark'')"

subsection \<open>Queries\<close>

text \<open>
  \<^verbatim>\<open>ORDER BY\<close> fixes the order of rows with different keys only: rows with equal keys
  come in any order. So an ordered query is a relation between the selected rows and a
  result: the result is a rearrangement of the rows, sorted by the key.
\<close>

definition order_by_asc :: "('r \<Rightarrow> 'k::linorder) \<Rightarrow> 'r list \<Rightarrow> 'r list \<Rightarrow> bool" where
  "order_by_asc k rows res = (mset res = mset rows \<and> sorted_wrt (\<lambda>a b. k a \<le> k b) res)"

definition order_by_desc :: "('r \<Rightarrow> 'k::linorder) \<Rightarrow> 'r list \<Rightarrow> 'r list \<Rightarrow> bool" where
  "order_by_desc k rows res = (mset res = mset rows \<and> sorted_wrt (\<lambda>a b. k b \<le> k a) res)"

text \<open>\<^verbatim>\<open>LIMIT 1\<close> of a one-column query, as a scalar subquery: NULL when there is no row.\<close>

definition limit1 :: "'a list \<Rightarrow> 'a option" where
  "limit1 res = (case res of [] \<Rightarrow> None | x # _ \<Rightarrow> Some x)"

text \<open>\<^verbatim>\<open>SELECT ... FROM chats WHERE id = ? AND user_id = ?\<close>\<close>

definition select_chat :: "db \<Rightarrow> string \<Rightarrow> nat \<Rightarrow> chat_row list" where
  "select_chat d cid uid = filter (\<lambda>c. c_id c = cid \<and> c_user_id c = uid) (chats d)"

text \<open>\<^verbatim>\<open>... FROM messages WHERE chat_id = ?\<close>\<close>

definition messages_of :: "db \<Rightarrow> string \<Rightarrow> message_row list" where
  "messages_of d cid = filter (\<lambda>m. m_chat_id m = cid) (messages d)"

text \<open>
  The ownership guard of the specification: a chat with this id exists whose owning
  user is this user.
\<close>

definition owns :: "db \<Rightarrow> nat \<Rightarrow> string \<Rightarrow> bool" where
  "owns d uid cid = (\<exists>c \<in> set (chats d). c_id c = cid \<and> c_user_id c = uid)"

text \<open>
  \<^verbatim>\<open>(SELECT content FROM messages WHERE chat_id = c.id ORDER BY timestamp DESC LIMIT 1)\<close>:
  \<open>v\<close> is a value the subquery may have on the rows \<open>ms\<close>: NULL when there is none,
  otherwise the content of a row whose timestamp no other row exceeds.
\<close>

definition last_message_of :: "message_row list \<Rightarrow> string option \<Rightarrow> bool" where
  "last_message_of ms v =
     (case v of
        None \<Rightarrow> ms = []
      | Some s \<Rightarrow> (\<exists>m \<in> set ms. m_content m = s \<and> (\<forall>m' \<in> set ms. m_timestamp m' \<le> m_timestamp m)))"

subsection \<open>Statements that write\<close>

text \<open>
  \<^verbatim>\<open>INSERT INTO chats (id, user_id, name, model)\<close>: fails on a duplicate primary key, on a
  user id that references no user, and on a value longer than its column. Both timestamps
  default to the clock.
\<close>

definition insert_chat :: "timestamp \<Rightarrow> string \<Rightarrow> nat \<Rightarrow> string \<Rightarrow> string \<Rightarrow> db \<Rightarrow> db option" where
  "insert_chat now cid uid name model d =
     (if cid \<in> c_id ` set (chats d) then None
      else if uid \<notin> u_id ` set (users d) then None
      else if \<not> (varchar 100 cid \<and> varchar 255 name \<and> varchar 100 model) then None
      else Some (d\<lparr>chats := chats d @
             [\<lparr>c_id = cid, c_user_id = uid, c_name = name, c_model = model,
               c_created_at = now, c_updated_at = now\<rparr>]\<rparr>))"

text \<open>
  \<^verbatim>\<open>INSERT INTO messages (chat_id, sender, content, model, response_info)\<close>: fails on a chat
  id that references no chat, on a sender that the column \<^verbatim>\<open>ENUM('user', 'ai')\<close> refuses and
  on a value longer than its column. The timestamp defaults to the clock.

  What the column makes of an assigned string is the database's: it stores the two members,
  and it also takes other spellings for them (a member's index as a string, and what its
  collation equates with a member). So the assignment is a parameter, \<open>sender_col\<close>: the
  member stored for a string, or \<open>None\<close> when the server refuses the string.
\<close>

definition insert_message ::
  "(string \<Rightarrow> string option) \<Rightarrow> timestamp \<Rightarrow> string \<Rightarrow> string \<Rightarrow> string \<Rightarrow>
   string option \<Rightarrow> string option \<Rightarrow> db \<Rightarrow> db option" where
  "insert_message sender_col now cid sender content model info d =
     (if cid \<notin> c_id ` set (chats d) then None
      else (case sender_col sender of
              None \<Rightarrow> None
            | Some member \<Rightarrow>
                if \<not> (varchar 65535 content \<and> varchar_opt 100 model \<and> varchar_opt 50 info) then None
                else Some (d\<lparr>messages := messages d @
                       [\<lparr>m_id = next_message_id d, m_chat_id = cid, m_sender = member,
                         m_content = content, m_model = model, m_response_info = info,
                         m_timestamp = now\<rparr>],
                       next_message_id := Suc (next_message_id d)\<rparr>)))"

text \<open>
  \<^verbatim>\<open>DELETE FROM chats WHERE ...\<close>: removes the rows that match and, by
  \<^verbatim>\<open>FOREIGN KEY (chat_id) REFERENCES chats(id) ON DELETE CASCADE\<close>, every message that
  references one of them. The count is that of the chat rows removed.
\<close>

definition delete_chats :: "(chat_row \<Rightarrow> bool) \<Rightarrow> db \<Rightarrow> nat \<times> db" where
  "delete_chats P d =
     (let gone = filter P (chats d) in
      (length gone,
       d\<lparr>chats := filter (\<lambda>c. \<not> P c) (chats d),
         messages := filter (\<lambda>m. m_chat_id m \<notin> c_id ` set gone) (messages d)\<rparr>))"

text \<open>
  \<^verbatim>\<open>UPDATE chats SET name = ? WHERE ...\<close>. A matched row whose name already is the new
  one is not changed; a row that changes gets the clock in \<^verbatim>\<open>updated_at\<close>
  (\<^verbatim>\<open>ON UPDATE CURRENT_TIMESTAMP\<close>). The result is the number of rows matched, the number
  changed, and the store. A name longer than the column fails once a row matches.
\<close>

definition rename_row :: "timestamp \<Rightarrow> string \<Rightarrow> chat_row \<Rightarrow> chat_row" where
  "rename_row now name c =
     (if c_name c = name then c else c\<lparr>c_name := name, c_updated_at := now\<rparr>)"

definition update_chat_name ::
  "timestamp \<Rightarrow> string \<Rightarrow> (chat_row \<Rightarrow> bool) \<Rightarrow> db \<Rightarrow> (nat \<times> nat \<times> db) option" where
  "update_chat_name now name P d =
     (let matched = filter P (chats d) in
      if matched \<noteq> [] \<and> \<not> varchar 255 name then None
      else Some (length matched,
                 length (filter (\<lambda>c. c_name c \<noteq> name) matched),
                 d\<lparr>chats := map (\<lambda>c. if P c then rename_row now name c else c) (chats d)\<rparr>))"

text \<open>\<^verbatim>\<open>UPDATE chats SET updated_at = CURRENT_TIMESTAMP WHERE id = ?\<close>\<close>

definition touch_chat :: "timestamp \<Rightarrow> string \<Rightarrow> db \<Rightarrow> db" where
  "touch_chat now cid d =
     d\<lparr>chats := map (\<lambda>c. if c_id c = cid then c\<lparr>c_updated_at := now\<rparr> else c) (chats d)\<rparr>"

text \<open>
  \<^verbatim>\<open>INSERT INTO users (username, email, password_hash)\<close>: fails on a username or an
  email already present (\<^verbatim>\<open>UNIQUE\<close>) and on a value longer than its column. The theme
  defaults to \<^verbatim>\<open>'light'\<close>, the timestamps to the clock. The result carries the new id.
\<close>

definition insert_user :: "timestamp \<Rightarrow> string \<Rightarrow> string \<Rightarrow> string \<Rightarrow> db \<Rightarrow> (nat \<times> db) option" where
  "insert_user now username email hash d =
     (if username \<in> u_username ` set (users d) \<or> email \<in> u_email ` set (users d) then None
      else if \<not> (varchar 50 username \<and> varchar 100 email \<and> varchar 255 hash) then None
      else Some (next_user_id d,
                 d\<lparr>users := users d @
                    [\<lparr>u_id = next_user_id d, u_username = username, u_email = email,
                      u_password_hash = hash, u_theme = ''light'',
                      u_created_at = now, u_updated_at = now\<rparr>],
                   next_user_id := Suc (next_user_id d)\<rparr>))"

text \<open>
  \<^verbatim>\<open>UPDATE users SET theme_preference = ? WHERE id = ?\<close> (in the PHP schema the column is
  \<^verbatim>\<open>theme\<close>). A row that already has the value is not changed; a row that changes gets the
  clock in \<^verbatim>\<open>updated_at\<close>.
\<close>

definition update_theme :: "timestamp \<Rightarrow> string \<Rightarrow> nat \<Rightarrow> db \<Rightarrow> db" where
  "update_theme now theme uid d =
     d\<lparr>users := map (\<lambda>r. if u_id r = uid \<and> u_theme r \<noteq> theme
                             then r\<lparr>u_theme := theme, u_updated_at := now\<rparr> else r) (users d)\<rparr>"

section \<open>The Node backend (api/server.js)\<close>

text \<open>
  A handler takes the authenticated user id (\<^verbatim>\<open>req.user.userId\<close>, set by
  \<^verbatim>\<open>authenticateToken\<close>), the request's fields, the clock's reading at each statement it
  executes, and the store; it returns the response and the store. A JSON field is a
  string or absent.
\<close>

datatype json_body =
    ErrorBody string
  | MessageBody string
  | UserBody string string nat string string string
  | ThemeBody string string
  | ChatBody chat_row "message_row list"

type_synonym response = "nat \<times> json_body"

text \<open>JavaScript's \<^verbatim>\<open>!v\<close> on a field: absent or the empty string.\<close>

definition falsy :: "string option \<Rightarrow> bool" where
  "falsy v = (case v of None \<Rightarrow> True | Some s \<Rightarrow> s = [])"

text \<open>\<^verbatim>\<open>v || null\<close>\<close>

definition or_null :: "string option \<Rightarrow> string option" where
  "or_null v = (if falsy v then None else v)"

definition internal_error :: response where
  "internal_error = (500, ErrorBody ''Internal server error'')"

definition chat_not_found :: response where
  "chat_not_found = (404, ErrorBody ''Chat not found'')"

text \<open>
  \<^verbatim>\<open>GET /api/chats/:chatId\<close>. The messages come from an ordered query, so the handler
  is a relation between the request and a response it may give.
\<close>

definition getChat :: "db \<Rightarrow> nat \<Rightarrow> string \<Rightarrow> response \<Rightarrow> bool" where
  "getChat d uid cid resp =
     (case select_chat d cid uid of
        [] \<Rightarrow> resp = chat_not_found
      | c # _ \<Rightarrow>
          (case resp of
             (st, ChatBody c' ms) \<Rightarrow>
               st = 200 \<and> c' = c \<and> order_by_asc m_timestamp (messages_of d cid) ms
           | _ \<Rightarrow> False))"

text \<open>\<^verbatim>\<open>POST /api/chats\<close>\<close>

definition createChat ::
  "timestamp \<Rightarrow> nat \<Rightarrow> string option \<Rightarrow> string option \<Rightarrow> string option \<Rightarrow> db \<Rightarrow> response \<times> db" where
  "createChat now uid cid name model d =
     (case (cid, name, model) of
        (Some i, Some n, Some m) \<Rightarrow>
          if i = [] \<or> n = [] \<or> m = [] then
            ((400, ErrorBody ''Chat ID, name, and model are required''), d)
          else (case insert_chat now i uid n m d of
                  None \<Rightarrow> (internal_error, d)
                | Some d' \<Rightarrow> ((201, MessageBody ''Chat created successfully''), d'))
      | _ \<Rightarrow> ((400, ErrorBody ''Chat ID, name, and model are required''), d))"

text \<open>
  \<^verbatim>\<open>PATCH /api/chats/:chatId\<close>. \<^verbatim>\<open>result.affectedRows\<close> is what the driver reports for
  the UPDATE: the rows matched when the connection has the flag \<^verbatim>\<open>FOUND_ROWS\<close>, the rows
  changed otherwise. The flag is the driver's, so it is a parameter here.
\<close>

definition affectedRows :: "bool \<Rightarrow> nat \<Rightarrow> nat \<Rightarrow> nat" where
  "affectedRows found_rows matched changed = (if found_rows then matched else changed)"

definition updateChat ::
  "bool \<Rightarrow> timestamp \<Rightarrow> nat \<Rightarrow> string \<Rightarrow> string option \<Rightarrow> db \<Rightarrow> response \<times> db" where
  "updateChat found_rows now uid cid name d =
     (case name of
        None \<Rightarrow> ((400, ErrorBody ''Chat name is required''), d)
      | Some n \<Rightarrow>
          if n = [] then ((400, ErrorBody ''Chat name is required''), d)
          else (case update_chat_name now n (\<lambda>c. c_id c = cid \<and> c_user_id c = uid) d of
                  None \<Rightarrow> (internal_error, d)
                | Some (matched, changed, d') \<Rightarrow>
                    if affectedRows found_rows matched changed = 0 then (chat_not_found, d')
                    else ((200, MessageBody ''Chat updated successfully''), d')))"

text \<open>\<^verbatim>\<open>DELETE /api/chats/:chatId\<close>\<close>

definition deleteChat :: "nat \<Rightarrow> string \<Rightarrow> db \<Rightarrow> response \<times> db" where
  "deleteChat uid cid d =
     (case delete_chats (\<lambda>c. c_id c = cid \<and> c_user_id c = uid) d of
        (n, d') \<Rightarrow>
          if n = 0 then (chat_not_found, d')
          else ((200, MessageBody ''Chat deleted successfully''), d'))"

text \<open>
  \<^verbatim>\<open>POST /api/chats/:chatId/messages\<close>. The handler awaits two writing statements in
  turn, each committed on its own: the INSERT at clock reading \<open>t1\<close>, then the UPDATE.
  Both sit in the one \<^verbatim>\<open>try\<close>. \<open>u\<close> is what becomes of the UPDATE: \<open>Some t2\<close> when
  the store executes it, at clock reading \<open>t2\<close>; \<open>None\<close> when the store rejects it (a
  lost connection, a lock wait that times out), so that the exception reaches the
  \<^verbatim>\<open>catch\<close> and the answer is 500 with the INSERT committed.

  \<open>addMessage_states\<close> lists the stores committed one after the other. The handler's final
  store is the last of them; the store after a crash is the last one committed before it.
\<close>

record message_body =
  b_sender :: "string option"
  b_content :: "string option"
  b_model :: "string option"
  b_response_info :: "string option"

definition addMessage_insert ::
  "(string \<Rightarrow> string option) \<Rightarrow> timestamp \<Rightarrow> string \<Rightarrow> string \<Rightarrow> string \<Rightarrow> message_body \<Rightarrow>
   db \<Rightarrow> db option" where
  "addMessage_insert sender_col t1 cid s c b d =
     insert_message sender_col t1 cid s c (or_null (b_model b)) (or_null (b_response_info b)) d"

definition addMessage ::
  "(string \<Rightarrow> string option) \<Rightarrow> timestamp \<Rightarrow> timestamp option \<Rightarrow> nat \<Rightarrow> string \<Rightarrow>
   message_body \<Rightarrow> db \<Rightarrow> response \<times> db" where
  "addMessage sender_col t1 u uid cid b d =
     (case (b_sender b, b_content b) of
        (Some s, Some c) \<Rightarrow>
          if s = [] \<or> c = [] then ((400, ErrorBody ''Sender and content are required''), d)
          else if select_chat d cid uid = [] then (chat_not_found, d)
          else (case addMessage_insert sender_col t1 cid s c b d of
                  None \<Rightarrow> (internal_error, d)
                | Some d1 \<Rightarrow>
                    (case u of
                       None \<Rightarrow> (internal_error, d1)
                     | Some t2 \<Rightarrow>
                         ((201, MessageBody ''Message added successfully''),
                          touch_chat t2 cid d1)))
      | _ \<Rightarrow> ((400, ErrorBody ''Sender and content are required''), d))"

definition addMessage_states ::
  "(string \<Rightarrow> string option) \<Rightarrow> timestamp \<Rightarrow> timestamp option \<Rightarrow> nat \<Rightarrow> string \<Rightarrow>
   message_body \<Rightarrow> db \<Rightarrow> db list" where
  "addMessage_states sender_col t1 u uid cid b d =
     (case (b_sender b, b_content b) of
        (Some s, Some c) \<Rightarrow>
          if s = [] \<or> c = [] then []
          else if select_chat d cid uid = [] then []
          else (case addMessage_insert sender_col t1 cid s c b d of
                  None \<Rightarrow> []
                | Some d1 \<Rightarrow>
                    (case u of
                       None \<Rightarrow> [d1]
                     | Some t2 \<Rightarrow> [d1, touch_chat t2 cid d1]))
      | _ \<Rightarrow> [])"

text \<open>
  \<^verbatim>\<open>GET /api/chats\<close>. A row of the answer has the five selected columns of a chat and
  the subquery's value. \<open>row_of uid r\<close> is the chat row that \<open>r\<close> was selected from,
  given the \<^verbatim>\<open>user_id\<close> the query fixes. The handler is again a relation: \<open>res\<close> is
  an answer the query may give.
\<close>

record chat_summary =
  s_id :: string
  s_name :: string
  s_model :: string
  s_created_at :: timestamp
  s_updated_at :: timestamp
  s_last_message :: "string option"

definition row_of :: "nat \<Rightarrow> chat_summary \<Rightarrow> chat_row" where
  "row_of uid r =
     \<lparr>c_id = s_id r, c_user_id = uid, c_name = s_name r, c_model = s_model r,
      c_created_at = s_created_at r, c_updated_at = s_updated_at r\<rparr>"

definition chats_of :: "db \<Rightarrow> nat \<Rightarrow> chat_row list" where
  "chats_of d uid = filter (\<lambda>c. c_user_id c = uid) (chats d)"

definition getChats :: "db \<Rightarrow> nat \<Rightarrow> chat_summary list \<Rightarrow> bool" where
  "getChats d uid res =
     (order_by_desc c_updated_at (chats_of d uid) (map (row_of uid) res)
      \<and> (\<forall>r \<in> set res. last_message_of (messages_of d (s_id r)) (s_last_message r)))"

text \<open>
  \<^verbatim>\<open>POST /api/register\<close>. \<^verbatim>\<open>bcrypt.hash\<close> and \<^verbatim>\<open>jwt.sign\<close> are the libraries';
  they are parameters.
\<close>

definition register ::
  "(string \<Rightarrow> string) \<Rightarrow> (nat \<Rightarrow> string \<Rightarrow> string) \<Rightarrow> timestamp \<Rightarrow>
   string option \<Rightarrow> string option \<Rightarrow> string option \<Rightarrow> db \<Rightarrow> response \<times> db" where
  "register bcrypt_hash jwt_sign now username email password d =
     (case (username, email, password) of
        (Some u, Some e, Some p) \<Rightarrow>
          if u = [] \<or> e = [] \<or> p = [] then
            ((400, ErrorBody ''Username, email, and password are required''), d)
          else if length p < 6 then
            ((400, ErrorBody ''Password must be at least 6 characters long''), d)
          else if filter (\<lambda>r. u_username r = u \<or> u_email r = e) (users d) \<noteq> [] then
            ((409, ErrorBody ''Username or email already exists''), d)
          else (case insert_user now u e (bcrypt_hash p) d of
                  None \<Rightarrow> (internal_error, d)
                | Some (insertId, d') \<Rightarrow>
                    ((201, UserBody ''User created successfully'' (jwt_sign insertId u)
                             insertId u e ''light''), d'))
      | _ \<Rightarrow> ((400, ErrorBody ''Username, email, and password are required''), d))"

text \<open>\<^verbatim>\<open>PATCH /api/profile/theme\<close>\<close>

definition updateTheme :: "timestamp \<Rightarrow> nat \<Rightarrow> string option \<Rightarrow> db \<Rightarrow> response \<times> db" where
  "updateTheme now uid theme d =
     (case theme of
        None \<Rightarrow> ((400, ErrorBody ''Valid theme (light/dark) is required''), d)
      | Some t \<Rightarrow>
          if t = [] \<or> t \<notin> set [''light'', ''dark''] then
            ((400, ErrorBody ''Valid theme (light/dark) is required''), d)
          else ((200, ThemeBody ''Theme preference updated'' t), update_theme now t uid d))"

text \<open>The messages a response carries.\<close>

definition body_messages :: "json_body \<Rightarrow> message_row list" where
  "body_messages b = (case b of ChatBody c ms \<Rightarrow> ms | _ \<Rightarrow> [])"

section \<open>The PHP backend (backend/api.php)\<close>

text \<open>
  A controller method returns an array: \<^verbatim>\<open>['error' => ...]\<close> or
  \<^verbatim>\<open>['success' => true, ...]\<close>. A \<^verbatim>\<open>PDOException\<close> that no \<^verbatim>\<open>catch\<close> handles ends the
  script: \<open>PhpFatal\<close>. Statements committed before it stay.
\<close>

datatype php_result =
    PhpError string
  | PhpSuccess
  | PhpUser nat string string string
  | PhpFatal

text \<open>\<^verbatim>\<open>trim\<close> strips blank, tab, newline, carriage return, NUL and vertical tab.\<close>

definition php_blank :: "char \<Rightarrow> bool" where
  "php_blank c = (c \<in> set [CHR 0x20, CHR 0x09, CHR 0x0A, CHR 0x0D, CHR 0x00, CHR 0x0B])"

definition php_trim :: "string \<Rightarrow> string" where
  "php_trim s = rev (dropWhile php_blank (rev (dropWhile php_blank s)))"

text \<open>\<^verbatim>\<open>empty($s)\<close> on a string: the empty string and \<^verbatim>\<open>"0"\<close>.\<close>

definition php_empty :: "string \<Rightarrow> bool" where
  "php_empty s = (s = [] \<or> s = ''0'')"

text \<open>\<^verbatim>\<open>$data['k'] ?? ''\<close>\<close>

definition or_empty :: "string option \<Rightarrow> string" where
  "or_empty v = (case v of None \<Rightarrow> [] | Some s \<Rightarrow> s)"

text \<open>
  \<^verbatim>\<open>AuthController::register\<close>. \<^verbatim>\<open>filter_var(..., FILTER_VALIDATE_EMAIL)\<close> and
  \<^verbatim>\<open>password_hash\<close> are PHP's; they are parameters.
\<close>

definition php_register ::
  "(string \<Rightarrow> bool) \<Rightarrow> (string \<Rightarrow> string) \<Rightarrow> timestamp \<Rightarrow>
   string option \<Rightarrow> string option \<Rightarrow> string option \<Rightarrow> db \<Rightarrow> php_result \<times> db" where
  "php_register filter_validate_email password_hash now username email password d =
     (let u = php_trim (or_empty username);
          e = php_trim (or_empty email);
          p = or_empty password
      in if php_empty u \<or> php_empty e \<or> php_empty p then
           (PhpError ''All fields are required'', d)
         else if length u < 3 then
           (PhpError ''Username must be at least 3 characters'', d)
         else if \<not> filter_validate_email e then
           (PhpError ''Invalid email format'', d)
         else if length p < 6 then
           (PhpError ''Password must be at least 6 characters'', d)
         else if filter (\<lambda>r. u_username r = u \<or> u_email r = e) (users d) \<noteq> [] then
           (PhpError ''Username or email already exists'', d)
         else (case insert_user now u e (password_hash p) d of
                 None \<Rightarrow> (PhpError ''Registration failed'', d)
               | Some (userId, d') \<Rightarrow> (PhpUser userId u e ''light'', d')))"

text \<open>
  \<^verbatim>\<open>AuthController::updateTheme\<close>. The column is \<^verbatim>\<open>theme VARCHAR(10)\<close> in this backend's
  schema: a longer value fails once a row matches.
\<close>

definition php_updateTheme :: "timestamp \<Rightarrow> nat \<Rightarrow> string \<Rightarrow> db \<Rightarrow> php_result \<times> db" where
  "php_updateTheme now userId theme d =
     (if filter (\<lambda>r. u_id r = userId) (users d) \<noteq> [] \<and> \<not> varchar 10 theme then (PhpFatal, d)
      else (PhpSuccess, update_theme now theme userId d))"

text \<open>
  \<^verbatim>\<open>ChatController::getUserChats\<close>: the query of the Node backend with all columns of
  the chat, then for each chat its messages by an ordered query.
\<close>

definition getUserChats :: "db \<Rightarrow> nat \<Rightarrow> (chat_row \<times> string option \<times> message_row list) list \<Rightarrow> bool" where
  "getUserChats d userId res =
     (order_by_desc c_updated_at (chats_of d userId) (map fst res)
      \<and> (\<forall>r \<in> set res.
            last_message_of (messages_of d (c_id (fst r))) (fst (snd r))
            \<and> order_by_asc m_timestamp (messages_of d (c_id (fst r))) (snd (snd r))))"

text \<open>
  \<^verbatim>\<open>ChatController::saveChat\<close>. The chat data and its messages come from the client,
  timestamps included.
\<close>

record php_message =
  pm_sender :: string
  pm_content :: string
  pm_model :: "string option"
  pm_responseInfo :: "string option"
  pm_timestamp :: timestamp

record php_chat =
  pc_id :: string
  pc_name :: string
  pc_model :: string
  pc_createdAt :: timestamp
  pc_updatedAt :: timestamp
  pc_messages :: "php_message list"

text \<open>
  \<^verbatim>\<open>INSERT INTO chats ... ON DUPLICATE KEY UPDATE name = VALUES(name), updated_at =
  VALUES(updated_at)\<close>, with \<^verbatim>\<open>id VARCHAR(50)\<close> in this backend's schema.
\<close>

definition upsert_chat :: "nat \<Rightarrow> php_chat \<Rightarrow> db \<Rightarrow> db option" where
  "upsert_chat userId cd d =
     (if \<not> (varchar 50 (pc_id cd) \<and> varchar 255 (pc_name cd) \<and> varchar 100 (pc_model cd)) then None
      else if pc_id cd \<in> c_id ` set (chats d) then
        Some (d\<lparr>chats := map (\<lambda>c. if c_id c = pc_id cd
                                     then c\<lparr>c_name := pc_name cd, c_updated_at := pc_updatedAt cd\<rparr>
                                     else c) (chats d)\<rparr>)
      else if userId \<notin> u_id ` set (users d) then None
      else Some (d\<lparr>chats := chats d @
             [\<lparr>c_id = pc_id cd, c_user_id = userId, c_name = pc_name cd, c_model = pc_model cd,
               c_created_at = pc_createdAt cd, c_updated_at = pc_updatedAt cd\<rparr>]\<rparr>))"

text \<open>\<^verbatim>\<open>DELETE FROM messages WHERE chat_id = ?\<close>\<close>

definition clear_messages :: "string \<Rightarrow> db \<Rightarrow> db" where
  "clear_messages cid d = d\<lparr>messages := filter (\<lambda>m. m_chat_id m \<noteq> cid) (messages d)\<rparr>"

text \<open>The \<^verbatim>\<open>foreach\<close> over the messages: one INSERT each, the first failure ends the script.\<close>

fun insert_messages ::
  "(string \<Rightarrow> string option) \<Rightarrow> string \<Rightarrow> php_message list \<Rightarrow> db \<Rightarrow> php_result \<times> db" where
  "insert_messages sender_col cid [] d = (PhpSuccess, d)"
| "insert_messages sender_col cid (m # ms) d =
     (case insert_message sender_col (pm_timestamp m) cid (pm_sender m) (pm_content m)
             (pm_model m) (pm_responseInfo m) d of
        None \<Rightarrow> (PhpFatal, d)
      | Some d' \<Rightarrow> insert_messages sender_col cid ms d')"

definition saveChat ::
  "(string \<Rightarrow> string option) \<Rightarrow> nat \<Rightarrow> php_chat \<Rightarrow> db \<Rightarrow> php_result \<times> db" where
  "saveChat sender_col userId cd d =
     (case upsert_chat userId cd d of
        None \<Rightarrow> (PhpFatal, d)
      | Some d1 \<Rightarrow>
          insert_messages sender_col (pc_id cd) (pc_messages cd) (clear_messages (pc_id cd) d1))"

text \<open>\<^verbatim>\<open>ChatController::deleteChat\<close>. \<^verbatim>\<open>fetch\<close> reads the first row of the answer.\<close>

definition php_deleteChat :: "nat \<Rightarrow> string \<Rightarrow> db \<Rightarrow> php_result \<times> db" where
  "php_deleteChat userId cid d =
     (case List.find (\<lambda>c. c_id c = cid) (chats d) of
        None \<Rightarrow> (PhpError ''Chat not found or access denied'', d)
      | Some c \<Rightarrow>
          if c_user_id c \<noteq> userId then (PhpError ''Chat not found or access denied'', d)
          else (PhpSuccess, snd (delete_chats (\<lambda>c. c_id c = cid) d)))"

section \<open>A store for the examples\<close>

text \<open>
  Two users; the chat \<^verbatim>\<open>c1\<close> of user 1 with the two messages of the specification's
  scenario, and a chat of user 2.
\<close>

definition demo_db :: db where
  "demo_db =
     \<lparr>users =
        [\<lparr>u_id = 1, u_username = ''demo'', u_email = ''demo@example.com'',
          u_password_hash = ''$2a$10$92IX'', u_theme = ''light'',
          u_created_at = 100, u_updated_at = 100\<rparr>,
         \<lparr>u_id = 2, u_username = ''alice'', u_email = ''alice@example.com'',
          u_password_hash = ''$2a$10$Zk3q'', u_theme = ''dark'',
          u_created_at = 110, u_updated_at = 115\<rparr>],
      chats =
        [\<lparr>c_id = ''c1'', c_user_id = 1, c_name = ''Test'', c_model = ''llama2'',
          c_created_at = 200, c_updated_at = 212\<rparr>,
         \<lparr>c_id = ''c2'', c_user_id = 2, c_name = ''Notes'', c_model = ''mistral'',
          c_created_at = 205, c_updated_at = 207\<rparr>],
      messages =
        [\<lparr>m_id = 1, m_chat_id = ''c1'', m_sender = ''user'', m_content = ''Hello'',
          m_model = None, m_response_info = None, m_timestamp = 210\<rparr>,
         \<lparr>m_id = 2, m_chat_id = ''c2'', m_sender = ''user'', m_content = ''Remember'',
          m_model = None, m_response_info = None, m_timestamp = 207\<rparr>,
         \<lparr>m_id = 3, m_chat_id = ''c1'', m_sender = ''ai'', m_content = ''Hi!'',
          m_model = Some ''llama2'', m_response_info = Some ''1.2s'', m_timestamp = 212\<rparr>],
      next_user_id = 3,
      next_message_id = 4\<rparr>"

text \<open>
  The sender column as the examples use it: a member is stored as it is, the string of a
  member's index as that member, and \<^verbatim>\<open>bot\<close> is refused.
\<close>

definition demo_sender_col :: "string \<Rightarrow> string option" where
  "demo_sender_col s =
     (if s = ''user'' \<or> s = ''1'' then Some ''user''
      else if s = ''ai'' \<or> s = ''2'' then Some ''ai''
      else None)"

section \<open>The specification's most recent message\<close>

text \<open>
  The specification orders the messages of a chat by timestamp, ties broken by identity.
  \<open>most_recent\<close> is the last message in that order.
\<close>

definition newer :: "message_row \<Rightarrow> message_row \<Rightarrow> message_row" where
  "newer a x =
     (if m_timestamp a < m_timestamp x \<or> (m_timestamp a = m_timestamp x \<and> m_id a < m_id x)
      then x else a)"

definition most_recent :: "message_row list \<Rightarrow> message_row option" where
  "most_recent ms = (case ms of [] \<Rightarrow> None | m # rest \<Rightarrow> Some (foldl newer m rest))"

section \<open>Ownership and deletion\<close>

lemma select_chat_empty_iff: "select_chat d cid uid = [] \<longleftrightarrow> \<not> owns d uid cid"
  by (auto simp: select_chat_def owns_def filter_empty_conv)

lemma delete_chats_none:
  assumes "\<forall>c \<in> set (chats d). \<not> P c"
  shows "delete_chats P d = (0, d)"
proof -
  have gone: "filter P (chats d) = []"
    using assms by (simp add: filter_empty_conv)
  have keep: "filter (\<lambda>c. \<not> P c) (chats d) = chats d"
    using assms by (simp add: filter_id_conv)
  show ?thesis
    by (simp add: delete_chats_def Let_def gone keep)
qed

lemma delete_chats_count:
  "fst (delete_chats P d) = 0 \<longleftrightarrow> (\<forall>c \<in> set (chats d). \<not> P c)"
  by (auto simp: delete_chats_def Let_def filter_empty_conv)

lemma delete_chats_messages:
  assumes "c \<in> set (chats d)" and "P c"
  shows "\<forall>m \<in> set (messages (snd (delete_chats P d))). m_chat_id m \<noteq> c_id c"
  using assms by (auto simp: delete_chats_def Let_def)

lemma delete_chats_chats:
  "\<forall>c \<in> set (chats (snd (delete_chats P d))). \<not> P c"
  by (auto simp: delete_chats_def Let_def)

lemma deleteChat_not_owned:
  assumes "\<not> owns d uid cid"
  shows "deleteChat uid cid d = (chat_not_found, d)"
proof -
  have "\<forall>c \<in> set (chats d). \<not> (c_id c = cid \<and> c_user_id c = uid)"
    using assms by (auto simp: owns_def)
  then have "delete_chats (\<lambda>c. c_id c = cid \<and> c_user_id c = uid) d = (0, d)"
    by (rule delete_chats_none)
  then show ?thesis
    by (simp add: deleteChat_def)
qed

lemma deleteChat_owned:
  assumes "owns d uid cid"
  shows "fst (deleteChat uid cid d) = (200, MessageBody ''Chat deleted successfully'')"
proof -
  have "fst (delete_chats (\<lambda>c. c_id c = cid \<and> c_user_id c = uid) d) \<noteq> 0"
    using assms unfolding delete_chats_count owns_def by blast
  then show ?thesis
    by (auto simp: deleteChat_def split: prod.splits)
qed

lemma getChat_not_owned_iff:
  assumes "\<not> owns d uid cid"
  shows "getChat d uid cid resp \<longleftrightarrow> resp = chat_not_found"
  using assms by (simp add: getChat_def select_chat_empty_iff[symmetric])

lemma getChat_messages:
  assumes "getChat d uid cid resp"
  shows "set (body_messages (snd resp)) \<subseteq> set (messages_of d cid)"
proof (cases "select_chat d cid uid")
  case Nil
  with assms show ?thesis
    by (simp add: getChat_def chat_not_found_def body_messages_def)
next
  case (Cons c cs)
  with assms obtain c' ms where r: "resp = (200, ChatBody c' ms)"
    and o: "order_by_asc m_timestamp (messages_of d cid) ms"
    by (auto simp: getChat_def split: prod.splits json_body.splits)
  from o have "set ms = set (messages_of d cid)"
    unfolding order_by_asc_def by (metis set_mset_mset)
  with r show ?thesis
    by (simp add: body_messages_def)
qed

lemma php_deleteChat_success:
  assumes "fst (php_deleteChat uid cid d) = PhpSuccess"
  shows "\<exists>c \<in> set (chats d). c_id c = cid \<and> c_user_id c = uid"
    and "snd (php_deleteChat uid cid d) = snd (delete_chats (\<lambda>c. c_id c = cid) d)"
proof -
  from assms obtain c where f: "List.find (\<lambda>c. c_id c = cid) (chats d) = Some c"
    and u: "c_user_id c = uid"
    by (auto simp: php_deleteChat_def split: option.splits if_splits)
  from f have "c \<in> set (chats d)" "c_id c = cid"
    by (auto simp: find_Some_iff)
  with u show "\<exists>c \<in> set (chats d). c_id c = cid \<and> c_user_id c = uid"
    by blast
  from f u show "snd (php_deleteChat uid cid d) = snd (delete_chats (\<lambda>c. c_id c = cid) d)"
    by (simp add: php_deleteChat_def)
qed

section \<open>The ownership guard\<close>

lemma map_if_none:
  assumes "\<forall>x \<in> set xs. \<not> P x"
  shows "map (\<lambda>x. if P x then f x else x) xs = xs"
  using assms by (induction xs) auto

lemma update_chat_name_none:
  assumes "\<forall>c \<in> set (chats d). \<not> P c"
  shows "update_chat_name now name P d = Some (0, 0, d)"
proof -
  have m: "filter P (chats d) = []"
    using assms by (simp add: filter_empty_conv)
  have k: "map (\<lambda>c. if P c then rename_row now name c else c) (chats d) = chats d"
    using assms by (rule map_if_none)
  show ?thesis
    by (simp add: update_chat_name_def Let_def m k)
qed

lemma updateChat_not_owned:
  assumes "\<not> owns d uid cid"
  shows "updateChat fr now uid cid name d =
           (if falsy name then ((400, ErrorBody ''Chat name is required''), d)
            else (chat_not_found, d))"
proof (cases name)
  case None
  then show ?thesis by (simp add: updateChat_def falsy_def)
next
  case (Some n)
  have "\<forall>c \<in> set (chats d). \<not> (c_id c = cid \<and> c_user_id c = uid)"
    using assms by (auto simp: owns_def)
  then have "update_chat_name now n (\<lambda>c. c_id c = cid \<and> c_user_id c = uid) d = Some (0, 0, d)"
    by (rule update_chat_name_none)
  with Some show ?thesis
    by (simp add: updateChat_def falsy_def affectedRows_def)
qed

lemma addMessage_invalid:
  assumes "falsy (b_sender b) \<or> falsy (b_content b)"
  shows "addMessage sc t1 u uid cid b d = ((400, ErrorBody ''Sender and content are required''), d)"
  using assms by (auto simp: addMessage_def falsy_def split: option.splits)

lemma addMessage_not_owned:
  assumes "\<not> falsy (b_sender b)" and "\<not> falsy (b_content b)" and "\<not> owns d uid cid"
  shows "addMessage sc t1 u uid cid b d = (chat_not_found, d)"
  using assms
  by (auto simp: addMessage_def falsy_def select_chat_empty_iff split: option.splits)

lemma php_deleteChat_not_owned:
  assumes "\<not> owns d uid cid"
  shows "php_deleteChat uid cid d = (PhpError ''Chat not found or access denied'', d)"
proof (cases "List.find (\<lambda>c. c_id c = cid) (chats d)")
  case None
  then show ?thesis by (simp add: php_deleteChat_def)
next
  case (Some c)
  then have "c \<in> set (chats d)" "c_id c = cid"
    by (auto simp: find_Some_iff)
  with assms have "c_user_id c \<noteq> uid"
    by (auto simp: owns_def)
  with Some show ?thesis by (simp add: php_deleteChat_def)
qed

lemma insert_message_chats:
  assumes "insert_message sc now cid s c mo i d = Some d'"
  shows "chats d' = chats d"
  using assms by (auto simp: insert_message_def split: if_splits option.splits)

lemma insert_messages_chats: "chats (snd (insert_messages sc cid ms d)) = chats d"
proof (induction ms arbitrary: d)
  case Nil
  show ?case by simp
next
  case (Cons m ms)
  show ?case
  proof (cases "insert_message sc (pm_timestamp m) cid (pm_sender m) (pm_content m)
                  (pm_model m) (pm_responseInfo m) d")
    case None
    then show ?thesis by simp
  next
    case (Some d')
    then show ?thesis
      using Cons.IH[of d'] insert_message_chats[OF Some] by simp
  qed
qed

lemma saveChat_chats:
  assumes "upsert_chat uid cd d = Some d1"
  shows "chats (snd (saveChat sc uid cd d)) = chats d1"
  using assms by (simp add: saveChat_def insert_messages_chats clear_messages_def)

lemma saveChat_creates:
  assumes new: "pc_id cd \<notin> c_id ` set (chats d)"
    and ok: "fst (saveChat sc uid cd d) = PhpSuccess"
  shows "owns (snd (saveChat sc uid cd d)) uid (pc_id cd)"
proof (cases "upsert_chat uid cd d")
  case None
  with ok show ?thesis by (simp add: saveChat_def)
next
  case (Some d1)
  with new have "\<exists>c \<in> set (chats d1). c_id c = pc_id cd \<and> c_user_id c = uid"
    by (auto simp: upsert_chat_def split: if_splits)
  then show ?thesis
    unfolding owns_def saveChat_chats[OF Some] .
qed

text \<open>
  C1 (as amended). Let the user not own the chat: no chat has the id, or the chat that
  has it belongs to someone else. Then in the Node backend GET answers 404 and nothing
  else, DELETE answers 404, PATCH answers 400 when the name is missing or empty and 404
  otherwise, POST of a message answers 400 when sender or content is missing or empty and
  404 otherwise; in the PHP backend \<open>deleteChat\<close> returns its one error. Every one of
  these leaves the store as it was, and the answer is the same whether the chat is absent
  or another user's, since only the guard decides it. \<open>saveChat\<close>, the one operation that
  replaces all messages, has no guard: on an id that no chat has, a call that succeeds has
  created the chat for the caller.
\<close>

theorem not_owned_not_found:
  assumes "\<not> owns d uid cid"
  shows "(\<forall>resp. getChat d uid cid resp \<longleftrightarrow> resp = chat_not_found)
       \<and> deleteChat uid cid d = (chat_not_found, d)
       \<and> updateChat fr now uid cid name d =
           (if falsy name then ((400, ErrorBody ''Chat name is required''), d)
            else (chat_not_found, d))
       \<and> addMessage sc t1 u uid cid b d =
           (if falsy (b_sender b) \<or> falsy (b_content b)
            then ((400, ErrorBody ''Sender and content are required''), d)
            else (chat_not_found, d))
       \<and> php_deleteChat uid cid d = (PhpError ''Chat not found or access denied'', d)
       \<and> (pc_id cd = cid \<and> cid \<notin> c_id ` set (chats d) \<and> fst (saveChat sc uid cd d) = PhpSuccess
            \<longrightarrow> owns (snd (saveChat sc uid cd d)) uid cid)"
proof -
  have g: "\<forall>resp. getChat d uid cid resp \<longleftrightarrow> resp = chat_not_found"
    using assms by (simp add: getChat_not_owned_iff)
  have del: "deleteChat uid cid d = (chat_not_found, d)"
    using assms by (rule deleteChat_not_owned)
  have upd: "updateChat fr now uid cid name d =
           (if falsy name then ((400, ErrorBody ''Chat name is required''), d)
            else (chat_not_found, d))"
    using assms by (rule updateChat_not_owned)
  have add: "addMessage sc t1 u uid cid b d =
           (if falsy (b_sender b) \<or> falsy (b_content b)
            then ((400, ErrorBody ''Sender and content are required''), d)
            else (chat_not_found, d))"
    using assms addMessage_invalid[of b sc t1 u uid cid d] addMessage_not_owned[of b d uid cid sc t1 u]
    by auto
  have php: "php_deleteChat uid cid d = (PhpError ''Chat not found or access denied'', d)"
    using assms by (rule php_deleteChat_not_owned)
  have sav: "pc_id cd = cid \<and> cid \<notin> c_id ` set (chats d) \<and> fst (saveChat sc uid cd d) = PhpSuccess
            \<longrightarrow> owns (snd (saveChat sc uid cd d)) uid cid"
    using saveChat_creates[of cd d sc uid] by blast
  from g del upd add php sav show ?thesis by blast
qed

theorem not_owned_not_found_witness:
  "\<not> owns demo_db 2 ''c1''
   \<and> getChat demo_db 2 ''c1'' chat_not_found
   \<and> deleteChat 2 ''c1'' demo_db = (chat_not_found, demo_db)
   \<and> updateChat True 300 2 ''c1'' (Some ''Mine'') demo_db = (chat_not_found, demo_db)
   \<and> addMessage demo_sender_col 300 (Some 301) 2 ''c1''
        \<lparr>b_sender = Some ''user'', b_content = Some ''Hello'', b_model = None, b_response_info = None\<rparr>
        demo_db = (chat_not_found, demo_db)
   \<and> php_deleteChat 2 ''c1'' demo_db = (PhpError ''Chat not found or access denied'', demo_db)
   \<and> \<not> owns demo_db 2 ''c9''
   \<and> deleteChat 2 ''c9'' demo_db = (chat_not_found, demo_db)
   \<and> owns (snd (saveChat demo_sender_col 2
        \<lparr>pc_id = ''c9'', pc_name = ''New'', pc_model = ''llama2'', pc_createdAt = 300,
         pc_updatedAt = 300, pc_messages = []\<rparr> demo_db)) 2 ''c9''"
proof -
  let ?b = "\<lparr>b_sender = Some ''user'', b_content = Some ''Hello'', b_model = None, b_response_info = None\<rparr>"
  let ?cd = "\<lparr>pc_id = ''c9'', pc_name = ''New'', pc_model = ''llama2'', pc_createdAt = 300,
         pc_updatedAt = 300, pc_messages = []\<rparr>"
  have n1: "\<not> owns demo_db 2 ''c1''"
    by (simp add: owns_def demo_db_def)
  have n9: "\<not> owns demo_db 2 ''c9''"
    by (simp add: owns_def demo_db_def)
  have f1: "\<not> falsy (Some ''Mine'')" "\<not> (falsy (b_sender ?b) \<or> falsy (b_content ?b))"
    by (simp_all add: falsy_def)
  have s9: "pc_id ?cd = ''c9'' \<and> ''c9'' \<notin> c_id ` set (chats demo_db)
              \<and> fst (saveChat demo_sender_col 2 ?cd demo_db) = PhpSuccess"
    by (simp add: saveChat_def upsert_chat_def clear_messages_def varchar_def demo_db_def)
  note t1 = not_owned_not_found[OF n1, of True 300 "Some ''Mine''" demo_sender_col 300 "Some 301" ?b ?cd]
  note t9 = not_owned_not_found[OF n9, of True 300 "Some ''Mine''" demo_sender_col 300 "Some 301" ?b ?cd]
  have g1: "getChat demo_db 2 ''c1'' chat_not_found"
    using t1 by blast
  from t1 t9 n1 n9 f1 s9 g1 show ?thesis by simp
qed

theorem not_owned_not_found_counterexample:
  "\<not> owns demo_db 1 ''c9''
   \<and> fst (updateChat True 300 1 ''c9'' (Some []) demo_db) = (400, ErrorBody ''Chat name is required'')
   \<and> fst (addMessage demo_sender_col 300 (Some 301) 1 ''c9''
        \<lparr>b_sender = Some ''user'', b_content = None, b_model = None, b_response_info = None\<rparr> demo_db)
       = (400, ErrorBody ''Sender and content are required'')
   \<and> fst (saveChat demo_sender_col 1
        \<lparr>pc_id = ''c9'', pc_name = ''New'', pc_model = ''llama2'', pc_createdAt = 300,
         pc_updatedAt = 300, pc_messages = []\<rparr> demo_db) = PhpSuccess"
  by (simp add: owns_def demo_db_def updateChat_def addMessage_def saveChat_def upsert_chat_def
        clear_messages_def varchar_def)

section \<open>Creating a chat\<close>

lemma insert_chat_duplicate:
  assumes "cid \<in> c_id ` set (chats d)"
  shows "insert_chat now cid uid name model d = None"
  using assms by (simp add: insert_chat_def)

lemma createChat_duplicate:
  assumes "cid \<in> c_id ` set (chats d)"
  shows "createChat now uid (Some cid) name model d =
           (if cid = [] \<or> falsy name \<or> falsy model
            then ((400, ErrorBody ''Chat ID, name, and model are required''), d)
            else (internal_error, d))"
  using insert_chat_duplicate[OF assms]
  by (auto simp: createChat_def falsy_def split: option.splits)

lemma upsert_chat_keeps:
  assumes "upsert_chat uid cd d = Some d1" and "pc_id cd \<in> c_id ` set (chats d)"
  shows "map c_id (chats d1) = map c_id (chats d)"
    and "map c_user_id (chats d1) = map c_user_id (chats d)"
    and "map c_model (chats d1) = map c_model (chats d)"
    and "map c_created_at (chats d1) = map c_created_at (chats d)"
  using assms by (auto simp: upsert_chat_def split: if_splits)

lemma saveChat_unchanged_on_failure:
  assumes "upsert_chat uid cd d = None"
  shows "saveChat sc uid cd d = (PhpFatal, d)"
  using assms by (simp add: saveChat_def)

lemma saveChat_keeps_owner:
  assumes "pc_id cd \<in> c_id ` set (chats d)"
  shows "map c_id (chats (snd (saveChat sc uid cd d))) = map c_id (chats d)
       \<and> map c_user_id (chats (snd (saveChat sc uid cd d))) = map c_user_id (chats d)
       \<and> map c_model (chats (snd (saveChat sc uid cd d))) = map c_model (chats d)
       \<and> map c_created_at (chats (snd (saveChat sc uid cd d))) = map c_created_at (chats d)"
proof (cases "upsert_chat uid cd d")
  case None
  then show ?thesis by (simp add: saveChat_unchanged_on_failure)
next
  case (Some d1)
  show ?thesis
    unfolding saveChat_chats[OF Some] using upsert_chat_keeps[OF Some assms] by simp
qed

text \<open>
  C5 (as amended). Let a chat with the id exist, whoever owns it. In the Node backend
  POST /api/chats with that id answers 400 when a field is missing or empty and otherwise
  500, the answer of the generic \<^verbatim>\<open>catch\<close> to the INSERT's duplicate key, and the store
  is as it was. In the PHP backend \<open>saveChat\<close> inserts or updates: whatever it answers,
  every chat keeps its id, its owner, its model and its creation time.
\<close>

theorem create_existing_id:
  assumes "cid \<in> c_id ` set (chats d)"
  shows "createChat now uid (Some cid) name model d =
           (if cid = [] \<or> falsy name \<or> falsy model
            then ((400, ErrorBody ''Chat ID, name, and model are required''), d)
            else ((500, ErrorBody ''Internal server error''), d))
       \<and> (pc_id cd = cid \<longrightarrow>
             map c_id (chats (snd (saveChat sc uid cd d))) = map c_id (chats d)
           \<and> map c_user_id (chats (snd (saveChat sc uid cd d))) = map c_user_id (chats d)
           \<and> map c_model (chats (snd (saveChat sc uid cd d))) = map c_model (chats d)
           \<and> map c_created_at (chats (snd (saveChat sc uid cd d))) = map c_created_at (chats d))"
proof -
  have node: "createChat now uid (Some cid) name model d =
           (if cid = [] \<or> falsy name \<or> falsy model
            then ((400, ErrorBody ''Chat ID, name, and model are required''), d)
            else ((500, ErrorBody ''Internal server error''), d))"
    using createChat_duplicate[OF assms] by (simp add: internal_error_def)
  have php: "pc_id cd = cid \<longrightarrow>
             map c_id (chats (snd (saveChat sc uid cd d))) = map c_id (chats d)
           \<and> map c_user_id (chats (snd (saveChat sc uid cd d))) = map c_user_id (chats d)
           \<and> map c_model (chats (snd (saveChat sc uid cd d))) = map c_model (chats d)
           \<and> map c_created_at (chats (snd (saveChat sc uid cd d))) = map c_created_at (chats d)"
    using assms saveChat_keeps_owner[of cd d sc uid] by blast
  from node php show ?thesis by blast
qed

theorem create_existing_id_witness:
  "''c1'' \<in> c_id ` set (chats demo_db)
   \<and> createChat 300 2 (Some ''c1'') (Some ''Mine'') (Some ''llama2'') demo_db
       = ((500, ErrorBody ''Internal server error''), demo_db)
   \<and> map c_user_id (chats (snd (saveChat demo_sender_col 2
        \<lparr>pc_id = ''c1'', pc_name = ''Mine'', pc_model = ''llama2'', pc_createdAt = 300,
         pc_updatedAt = 300, pc_messages = []\<rparr> demo_db))) = [1, 2]"
proof -
  let ?cd = "\<lparr>pc_id = ''c1'', pc_name = ''Mine'', pc_model = ''llama2'', pc_createdAt = 300,
         pc_updatedAt = 300, pc_messages = []\<rparr>"
  have e: "''c1'' \<in> c_id ` set (chats demo_db)"
    by (simp add: demo_db_def)
  have f: "\<not> (''c1'' = [] \<or> falsy (Some ''Mine'') \<or> falsy (Some ''llama2''))"
    by (simp add: falsy_def)
  have o: "map c_user_id (chats demo_db) = [1, 2]"
    by (simp add: demo_db_def)
  from create_existing_id[OF e, of 300 2 "Some ''Mine''" "Some ''llama2''" ?cd demo_sender_col] e f o
  show ?thesis by simp
qed

theorem create_existing_id_counterexample:
  "''c1'' \<in> c_id ` set (chats demo_db)
   \<and> fst (createChat 300 2 (Some ''c1'') (Some ''Mine'') (Some ''llama2'') demo_db)
       = (500, ErrorBody ''Internal server error'')
   \<and> fst (saveChat demo_sender_col 1
        \<lparr>pc_id = ''c1'', pc_name = ''Renamed'', pc_model = ''llama2'', pc_createdAt = 300,
         pc_updatedAt = 300, pc_messages = []\<rparr> demo_db) = PhpSuccess
   \<and> map c_name (chats (snd (saveChat demo_sender_col 1
        \<lparr>pc_id = ''c1'', pc_name = ''Renamed'', pc_model = ''llama2'', pc_createdAt = 300,
         pc_updatedAt = 300, pc_messages = []\<rparr> demo_db))) = [''Renamed'', ''Notes'']
   \<and> map c_name (chats demo_db) = [''Test'', ''Notes'']"
  by (simp add: demo_db_def createChat_def insert_chat_def internal_error_def saveChat_def
        upsert_chat_def clear_messages_def varchar_def)

section \<open>Appending a message\<close>

lemma addMessage_refused_sender:
  assumes "b_sender b = Some s" and "s \<noteq> []" and "sc s = None"
    and "\<not> falsy (b_content b)" and "owns d uid cid"
  shows "addMessage sc t1 u uid cid b d = (internal_error, d)"
  using assms
  by (auto simp: addMessage_def addMessage_insert_def insert_message_def falsy_def
        select_chat_empty_iff split: option.splits)

lemma addMessage_validated:
  assumes "\<not> falsy (b_sender b)" and "\<not> falsy (b_content b)"
  shows "fst (fst (addMessage sc t1 u uid cid b d)) \<noteq> 400"
  using assms
  by (auto simp: addMessage_def falsy_def chat_not_found_def internal_error_def
        split: option.splits)

text \<open>
  C8 (as amended). POST of a message answers 400 when sender or content is missing or
  empty, and 404 when both are there and the user does not own the chat; either way the
  store is as it was, with no message and no new timestamp. Once sender and content are
  there the answer is never 400, whatever the sender is: the handler does not test that it
  is \<^verbatim>\<open>user\<close> or \<^verbatim>\<open>ai\<close>. On a chat the user owns, a sender that the column refuses
  makes the INSERT fail: the answer is 500 and the store is as it was.
\<close>

theorem addMessage_failures:
  "(falsy (b_sender b) \<or> falsy (b_content b) \<longrightarrow>
      addMessage sc t1 u uid cid b d = ((400, ErrorBody ''Sender and content are required''), d))
   \<and> (\<not> falsy (b_sender b) \<and> \<not> falsy (b_content b) \<and> \<not> owns d uid cid \<longrightarrow>
      addMessage sc t1 u uid cid b d = ((404, ErrorBody ''Chat not found''), d))
   \<and> (\<not> falsy (b_sender b) \<and> \<not> falsy (b_content b) \<longrightarrow>
      fst (fst (addMessage sc t1 u uid cid b d)) \<noteq> 400)
   \<and> (b_sender b = Some s \<and> s \<noteq> [] \<and> sc s = None \<and> \<not> falsy (b_content b) \<and> owns d uid cid \<longrightarrow>
      addMessage sc t1 u uid cid b d = ((500, ErrorBody ''Internal server error''), d))"
proof -
  have a: "falsy (b_sender b) \<or> falsy (b_content b) \<longrightarrow>
      addMessage sc t1 u uid cid b d = ((400, ErrorBody ''Sender and content are required''), d)"
    using addMessage_invalid[of b sc t1 u uid cid d] by blast
  have n: "\<not> falsy (b_sender b) \<and> \<not> falsy (b_content b) \<and> \<not> owns d uid cid \<longrightarrow>
      addMessage sc t1 u uid cid b d = ((404, ErrorBody ''Chat not found''), d)"
    using addMessage_not_owned[of b d uid cid sc t1 u] by (simp add: chat_not_found_def)
  have v: "\<not> falsy (b_sender b) \<and> \<not> falsy (b_content b) \<longrightarrow>
      fst (fst (addMessage sc t1 u uid cid b d)) \<noteq> 400"
    using addMessage_validated[of b sc t1 u uid cid d] by blast
  have e: "b_sender b = Some s \<and> s \<noteq> [] \<and> sc s = None \<and> \<not> falsy (b_content b) \<and> owns d uid cid \<longrightarrow>
      addMessage sc t1 u uid cid b d = ((500, ErrorBody ''Internal server error''), d)"
    using addMessage_refused_sender[of b s sc d uid cid t1 u] by (simp add: internal_error_def)
  from a n v e show ?thesis by blast
qed

theorem addMessage_failures_witness:
  "addMessage demo_sender_col 300 (Some 301) 1 ''c1''
      \<lparr>b_sender = Some ''user'', b_content = Some [], b_model = None, b_response_info = None\<rparr> demo_db
     = ((400, ErrorBody ''Sender and content are required''), demo_db)
   \<and> addMessage demo_sender_col 300 (Some 301) 2 ''c1''
      \<lparr>b_sender = Some ''user'', b_content = Some ''Hello'', b_model = None, b_response_info = None\<rparr> demo_db
     = ((404, ErrorBody ''Chat not found''), demo_db)
   \<and> fst (fst (addMessage demo_sender_col 300 (Some 301) 1 ''c1''
      \<lparr>b_sender = Some ''1'', b_content = Some ''Hello'', b_model = None, b_response_info = None\<rparr> demo_db))
     \<noteq> 400
   \<and> addMessage demo_sender_col 300 (Some 301) 1 ''c1''
      \<lparr>b_sender = Some ''bot'', b_content = Some ''Hello'', b_model = None, b_response_info = None\<rparr> demo_db
     = ((500, ErrorBody ''Internal server error''), demo_db)"
proof -
  let ?b1 = "\<lparr>b_sender = Some ''user'', b_content = Some [], b_model = None, b_response_info = None\<rparr>"
  let ?b2 = "\<lparr>b_sender = Some ''user'', b_content = Some ''Hello'', b_model = None, b_response_info = None\<rparr>"
  let ?b3 = "\<lparr>b_sender = Some ''1'', b_content = Some ''Hello'', b_model = None, b_response_info = None\<rparr>"
  let ?b4 = "\<lparr>b_sender = Some ''bot'', b_content = Some ''Hello'', b_model = None, b_response_info = None\<rparr>"
  have h1: "falsy (b_sender ?b1) \<or> falsy (b_content ?b1)"
    by (simp add: falsy_def)
  have h2: "\<not> falsy (b_sender ?b2) \<and> \<not> falsy (b_content ?b2) \<and> \<not> owns demo_db 2 ''c1''"
    by (simp add: falsy_def owns_def demo_db_def)
  have h3: "\<not> falsy (b_sender ?b3) \<and> \<not> falsy (b_content ?b3)"
    by (simp add: falsy_def)
  have h4: "b_sender ?b4 = Some ''bot'' \<and> ''bot'' \<noteq> [] \<and> demo_sender_col ''bot'' = None
              \<and> \<not> falsy (b_content ?b4) \<and> owns demo_db 1 ''c1''"
    by (simp add: falsy_def owns_def demo_db_def demo_sender_col_def)
  note t1 = addMessage_failures[of ?b1 demo_sender_col 300 "Some 301" 1 "''c1''" demo_db "''bot''"]
  note t2 = addMessage_failures[of ?b2 demo_sender_col 300 "Some 301" 2 "''c1''" demo_db "''bot''"]
  note t3 = addMessage_failures[of ?b3 demo_sender_col 300 "Some 301" 1 "''c1''" demo_db "''bot''"]
  note t4 = addMessage_failures[of ?b4 demo_sender_col 300 "Some 301" 1 "''c1''" demo_db "''bot''"]
  have c1: "addMessage demo_sender_col 300 (Some 301) 1 ''c1'' ?b1 demo_db
              = ((400, ErrorBody ''Sender and content are required''), demo_db)"
    by (rule t1[THEN conjunct1, THEN mp, OF h1])
  have c2: "addMessage demo_sender_col 300 (Some 301) 2 ''c1'' ?b2 demo_db
              = ((404, ErrorBody ''Chat not found''), demo_db)"
    by (rule t2[THEN conjunct2, THEN conjunct1, THEN mp, OF h2])
  have c3: "fst (fst (addMessage demo_sender_col 300 (Some 301) 1 ''c1'' ?b3 demo_db)) \<noteq> 400"
    by (rule t3[THEN conjunct2, THEN conjunct2, THEN conjunct1, THEN mp, OF h3])
  have c4: "addMessage demo_sender_col 300 (Some 301) 1 ''c1'' ?b4 demo_db
              = ((500, ErrorBody ''Internal server error''), demo_db)"
    by (rule t4[THEN conjunct2, THEN conjunct2, THEN conjunct2, THEN mp, OF h4])
  from c1 c2 c3 c4 show ?thesis
    by (intro conjI)
qed

theorem addMessage_failures_counterexample:
  "owns demo_db 1 ''c1''
   \<and> demo_sender_col ''bot'' = None
   \<and> fst (addMessage demo_sender_col 300 (Some 301) 1 ''c1''
        \<lparr>b_sender = Some ''bot'', b_content = Some ''Hello'', b_model = None, b_response_info = None\<rparr>
        demo_db) = (500, ErrorBody ''Internal server error'')"
  by (simp add: demo_sender_col_def owns_def demo_db_def addMessage_def addMessage_insert_def
        insert_message_def select_chat_def internal_error_def)

section \<open>The two writes of an append\<close>

lemma insert_message_Some:
  assumes "insert_message sc now cid s c mo i d = Some d1"
  shows "\<exists>member. d1 = d\<lparr>messages := messages d @
             [\<lparr>m_id = next_message_id d, m_chat_id = cid, m_sender = member,
               m_content = c, m_model = mo, m_response_info = i, m_timestamp = now\<rparr>],
             next_message_id := Suc (next_message_id d)\<rparr>"
  using assms by (auto simp: insert_message_def split: if_splits option.splits)

lemma addMessage_created:
  assumes "fst (fst (addMessage sc t1 (Some t2) uid cid b d)) = 201"
  obtains s c d1 where "b_sender b = Some s" and "b_content b = Some c"
    and "owns d uid cid"
    and "addMessage_insert sc t1 cid s c b d = Some d1"
    and "addMessage sc t1 (Some t2) uid cid b d =
           ((201, MessageBody ''Message added successfully''), touch_chat t2 cid d1)"
    and "addMessage_states sc t1 (Some t2) uid cid b d = [d1, touch_chat t2 cid d1]"
    and "addMessage sc t1 None uid cid b d = (internal_error, d1)"
    and "addMessage_states sc t1 None uid cid b d = [d1]"
proof (cases "b_sender b")
  case None
  with assms show ?thesis by (simp add: addMessage_def)
next
  case s: (Some s)
  show ?thesis
  proof (cases "b_content b")
    case None
    with assms s show ?thesis by (simp add: addMessage_def)
  next
    case c: (Some c)
    have valid: "\<not> (s = [] \<or> c = [])"
      using assms s c by (auto simp: addMessage_def)
    have sel: "select_chat d cid uid \<noteq> []"
      using assms s c valid by (auto simp: addMessage_def chat_not_found_def)
    obtain d1 where ins: "addMessage_insert sc t1 cid s c b d = Some d1"
      using assms s c valid sel
      by (cases "addMessage_insert sc t1 cid s c b d")
         (auto simp: addMessage_def internal_error_def)
    have own: "owns d uid cid"
      using sel by (simp add: select_chat_empty_iff)
    have r1: "addMessage sc t1 (Some t2) uid cid b d =
           ((201, MessageBody ''Message added successfully''), touch_chat t2 cid d1)"
      using s c valid sel ins by (simp add: addMessage_def)
    have r2: "addMessage_states sc t1 (Some t2) uid cid b d = [d1, touch_chat t2 cid d1]"
      using s c valid sel ins by (simp add: addMessage_states_def)
    have r3: "addMessage sc t1 None uid cid b d = (internal_error, d1)"
      using s c valid sel ins by (simp add: addMessage_def)
    have r4: "addMessage_states sc t1 None uid cid b d = [d1]"
      using s c valid sel ins by (simp add: addMessage_states_def)
    show ?thesis
      by (rule that[OF s c own ins r1 r2 r3 r4])
  qed
qed

lemma addMessage_states_refused:
  assumes "fst (fst (addMessage sc t1 u uid cid b d)) = 400
           \<or> fst (fst (addMessage sc t1 u uid cid b d)) = 404"
  shows "addMessage_states sc t1 u uid cid b d = []"
  using assms
  by (auto simp: addMessage_def addMessage_states_def internal_error_def
        split: option.splits if_splits)

lemma addMessage_states_no_insert:
  assumes "b_sender b = Some s" and "b_content b = Some c"
    and "addMessage_insert sc t1 cid s c b d = None"
  shows "addMessage_states sc t1 u uid cid b d = []"
  using assms by (simp add: addMessage_states_def)

lemma addMessage_states_empty:
  assumes "addMessage_states sc t1 u uid cid b d = []"
  shows "snd (addMessage sc t1 u uid cid b d) = d"
  using assms
  by (auto simp: addMessage_def addMessage_states_def split: option.splits if_splits)

text \<open>
  C4 (as amended). The handler does not open a transaction. Let the POST be one that is
  answered 201 when the store executes the UPDATE at \<open>t2\<close>: then it has committed two
  stores in turn. The first has the new message, with the clock of the INSERT, and the
  chats table as it was: this is what a reader between the two statements has, what the
  store is after a crash there, and the final store, answered 500, of the same request
  when the store rejects the UPDATE. The second, the final store of the 201, differs from
  the first in the chats table only, so the new timestamp is never there without the
  message. A POST that is answered 400 or 404, or whose INSERT fails, has committed
  nothing, and then the store is as it was.
\<close>

theorem addMessage_two_commits:
  "(fst (fst (addMessage sc t1 (Some t2) uid cid b d)) = 201 \<longrightarrow>
      (let d2 = snd (addMessage sc t1 (Some t2) uid cid b d) in
         addMessage_states sc t1 (Some t2) uid cid b d = [d2\<lparr>chats := chats d\<rparr>, d2]
       \<and> (\<exists>m. messages d2 = messages d @ [m]
               \<and> m_chat_id m = cid \<and> m_timestamp m = t1 \<and> b_content b = Some (m_content m))
       \<and> chats d2 = map (\<lambda>c. if c_id c = cid then c\<lparr>c_updated_at := t2\<rparr> else c) (chats d)
       \<and> addMessage sc t1 None uid cid b d =
           ((500, ErrorBody ''Internal server error''), d2\<lparr>chats := chats d\<rparr>)
       \<and> addMessage_states sc t1 None uid cid b d = [d2\<lparr>chats := chats d\<rparr>]))
   \<and> (fst (fst (addMessage sc t1 u uid cid b d)) = 400
        \<or> fst (fst (addMessage sc t1 u uid cid b d)) = 404 \<longrightarrow>
        addMessage_states sc t1 u uid cid b d = [])
   \<and> (b_sender b = Some s \<and> b_content b = Some c
        \<and> addMessage_insert sc t1 cid s c b d = None \<longrightarrow>
        addMessage_states sc t1 u uid cid b d = [])
   \<and> (addMessage_states sc t1 u uid cid b d = [] \<longrightarrow>
        snd (addMessage sc t1 u uid cid b d) = d)"
proof (intro conjI impI)
  assume ok: "fst (fst (addMessage sc t1 (Some t2) uid cid b d)) = 201"
  from ok obtain s' c' d1 where c': "b_content b = Some c'"
    and ins: "addMessage_insert sc t1 cid s' c' b d = Some d1"
    and res: "addMessage sc t1 (Some t2) uid cid b d =
           ((201, MessageBody ''Message added successfully''), touch_chat t2 cid d1)"
    and sts: "addMessage_states sc t1 (Some t2) uid cid b d = [d1, touch_chat t2 cid d1]"
    and rej: "addMessage sc t1 None uid cid b d = (internal_error, d1)"
    and rej_sts: "addMessage_states sc t1 None uid cid b d = [d1]"
    by (rule addMessage_created)
  from insert_message_Some[OF ins[unfolded addMessage_insert_def]]
  obtain member where d1_eq: "d1 = d\<lparr>messages := messages d @
             [\<lparr>m_id = next_message_id d, m_chat_id = cid, m_sender = member,
               m_content = c', m_model = or_null (b_model b),
               m_response_info = or_null (b_response_info b), m_timestamp = t1\<rparr>],
             next_message_id := Suc (next_message_id d)\<rparr>"
    by blast
  have stale: "(touch_chat t2 cid d1)\<lparr>chats := chats d\<rparr> = d1"
    by (simp add: touch_chat_def d1_eq)
  have fin: "snd (addMessage sc t1 (Some t2) uid cid b d) = touch_chat t2 cid d1"
    by (simp add: res)
  have p1: "addMessage_states sc t1 (Some t2) uid cid b d =
        [(touch_chat t2 cid d1)\<lparr>chats := chats d\<rparr>, touch_chat t2 cid d1]"
    by (simp add: sts stale)
  have p2: "\<exists>m. messages (touch_chat t2 cid d1) = messages d @ [m]
            \<and> m_chat_id m = cid \<and> m_timestamp m = t1 \<and> b_content b = Some (m_content m)"
    by (simp add: touch_chat_def d1_eq c')
  have p3: "chats (touch_chat t2 cid d1) =
        map (\<lambda>c. if c_id c = cid then c\<lparr>c_updated_at := t2\<rparr> else c) (chats d)"
    by (simp add: touch_chat_def d1_eq)
  have p4: "addMessage sc t1 None uid cid b d =
           ((500, ErrorBody ''Internal server error''), (touch_chat t2 cid d1)\<lparr>chats := chats d\<rparr>)"
    by (simp add: rej stale internal_error_def)
  have p5: "addMessage_states sc t1 None uid cid b d = [(touch_chat t2 cid d1)\<lparr>chats := chats d\<rparr>]"
    by (simp add: rej_sts stale)
  from p1 p2 p3 p4 p5
  show "let d2 = snd (addMessage sc t1 (Some t2) uid cid b d) in
         addMessage_states sc t1 (Some t2) uid cid b d = [d2\<lparr>chats := chats d\<rparr>, d2]
       \<and> (\<exists>m. messages d2 = messages d @ [m]
               \<and> m_chat_id m = cid \<and> m_timestamp m = t1 \<and> b_content b = Some (m_content m))
       \<and> chats d2 = map (\<lambda>c. if c_id c = cid then c\<lparr>c_updated_at := t2\<rparr> else c) (chats d)
       \<and> addMessage sc t1 None uid cid b d =
           ((500, ErrorBody ''Internal server error''), d2\<lparr>chats := chats d\<rparr>)
       \<and> addMessage_states sc t1 None uid cid b d = [d2\<lparr>chats := chats d\<rparr>]"
    unfolding Let_def fin by (intro conjI)
next
  assume "fst (fst (addMessage sc t1 u uid cid b d)) = 400
        \<or> fst (fst (addMessage sc t1 u uid cid b d)) = 404"
  then show "addMessage_states sc t1 u uid cid b d = []"
    by (rule addMessage_states_refused)
next
  assume "b_sender b = Some s \<and> b_content b = Some c
        \<and> addMessage_insert sc t1 cid s c b d = None"
  then show "addMessage_states sc t1 u uid cid b d = []"
    using addMessage_states_no_insert[of b s c sc t1 cid d u uid] by blast
next
  assume "addMessage_states sc t1 u uid cid b d = []"
  then show "snd (addMessage sc t1 u uid cid b d) = d"
    by (rule addMessage_states_empty)
qed

lemma demo_append:
  "addMessage demo_sender_col t1 (Some t2) 1 ''c1''
     \<lparr>b_sender = Some ''user'', b_content = Some ''More'', b_model = None, b_response_info = None\<rparr>
     demo_db =
   ((201, MessageBody ''Message added successfully''),
    demo_db\<lparr>chats :=
        [\<lparr>c_id = ''c1'', c_user_id = 1, c_name = ''Test'', c_model = ''llama2'',
          c_created_at = 200, c_updated_at = t2\<rparr>,
         \<lparr>c_id = ''c2'', c_user_id = 2, c_name = ''Notes'', c_model = ''mistral'',
          c_created_at = 205, c_updated_at = 207\<rparr>],
      messages := messages demo_db @
        [\<lparr>m_id = 4, m_chat_id = ''c1'', m_sender = ''user'', m_content = ''More'',
          m_model = None, m_response_info = None, m_timestamp = t1\<rparr>],
      next_message_id := 5\<rparr>)"
  by (simp add: addMessage_def addMessage_insert_def insert_message_def select_chat_def
        touch_chat_def or_null_def falsy_def demo_sender_col_def varchar_def varchar_opt_def
        demo_db_def)

lemma demo_append_rejected:
  "addMessage demo_sender_col t1 None 1 ''c1''
     \<lparr>b_sender = Some ''user'', b_content = Some ''More'', b_model = None, b_response_info = None\<rparr>
     demo_db =
   ((500, ErrorBody ''Internal server error''),
    demo_db\<lparr>messages := messages demo_db @
        [\<lparr>m_id = 4, m_chat_id = ''c1'', m_sender = ''user'', m_content = ''More'',
          m_model = None, m_response_info = None, m_timestamp = t1\<rparr>],
      next_message_id := 5\<rparr>)"
  by (simp add: addMessage_def addMessage_insert_def insert_message_def select_chat_def
        or_null_def falsy_def demo_sender_col_def varchar_def varchar_opt_def
        internal_error_def demo_db_def)

theorem addMessage_two_commits_witness:
  "fst (fst (addMessage demo_sender_col 300 (Some 301) 1 ''c1''
     \<lparr>b_sender = Some ''user'', b_content = Some ''More'', b_model = None, b_response_info = None\<rparr>
     demo_db)) = 201
   \<and> map (\<lambda>s. (map c_updated_at (chats s), map m_content (messages_of s ''c1'')))
        (addMessage_states demo_sender_col 300 (Some 301) 1 ''c1''
          \<lparr>b_sender = Some ''user'', b_content = Some ''More'', b_model = None, b_response_info = None\<rparr>
          demo_db)
      = [([212, 207], [''Hello'', ''Hi!'', ''More'']), ([301, 207], [''Hello'', ''Hi!'', ''More''])]
   \<and> map (\<lambda>s. (map c_updated_at (chats s), map m_content (messages_of s ''c1'')))
        (addMessage_states demo_sender_col 300 None 1 ''c1''
          \<lparr>b_sender = Some ''user'', b_content = Some ''More'', b_model = None, b_response_info = None\<rparr>
          demo_db)
      = [([212, 207], [''Hello'', ''Hi!'', ''More''])]
   \<and> fst (fst (addMessage demo_sender_col 300 (Some 301) 2 ''c1''
     \<lparr>b_sender = Some ''user'', b_content = Some ''More'', b_model = None, b_response_info = None\<rparr>
     demo_db)) = 404
   \<and> addMessage_states demo_sender_col 300 (Some 301) 2 ''c1''
          \<lparr>b_sender = Some ''user'', b_content = Some ''More'', b_model = None, b_response_info = None\<rparr>
          demo_db = []
   \<and> snd (addMessage demo_sender_col 300 (Some 301) 2 ''c1''
          \<lparr>b_sender = Some ''user'', b_content = Some ''More'', b_model = None, b_response_info = None\<rparr>
          demo_db) = demo_db
   \<and> addMessage_insert demo_sender_col 300 ''c1'' ''bot'' ''More''
          \<lparr>b_sender = Some ''bot'', b_content = Some ''More'', b_model = None, b_response_info = None\<rparr>
          demo_db = None
   \<and> addMessage_states demo_sender_col 300 (Some 301) 1 ''c1''
          \<lparr>b_sender = Some ''bot'', b_content = Some ''More'', b_model = None, b_response_info = None\<rparr>
          demo_db = []"
proof -
  let ?b = "\<lparr>b_sender = Some ''user'', b_content = Some ''More'', b_model = None, b_response_info = None\<rparr>"
  let ?bb = "\<lparr>b_sender = Some ''bot'', b_content = Some ''More'', b_model = None, b_response_info = None\<rparr>"
  let ?d2 = "snd (addMessage demo_sender_col 300 (Some 301) 1 ''c1'' ?b demo_db)"
  have ok: "fst (fst (addMessage demo_sender_col 300 (Some 301) 1 ''c1'' ?b demo_db)) = 201"
    using demo_append[of 300 301] by simp
  have no: "fst (fst (addMessage demo_sender_col 300 (Some 301) 2 ''c1'' ?b demo_db)) = 404"
    by (simp add: addMessage_def select_chat_def demo_db_def falsy_def chat_not_found_def)
  note t = addMessage_two_commits[of demo_sender_col 300 301 1 "''c1''" ?b demo_db "Some 301" "''user''" "''More''"]
  note r = addMessage_two_commits[of demo_sender_col 300 301 2 "''c1''" ?b demo_db "Some 301" "''user''" "''More''"]
  have sts: "addMessage_states demo_sender_col 300 (Some 301) 1 ''c1'' ?b demo_db =
        [?d2\<lparr>chats := chats demo_db\<rparr>, ?d2]"
    using t[THEN conjunct1, THEN mp, OF ok] by (simp add: Let_def)
  have rej: "addMessage_states demo_sender_col 300 None 1 ''c1'' ?b demo_db =
        [?d2\<lparr>chats := chats demo_db\<rparr>]"
    using t[THEN conjunct1, THEN mp, OF ok] by (simp add: Let_def)
  have view: "map (\<lambda>s. (map c_updated_at (chats s), map m_content (messages_of s ''c1'')))
        (addMessage_states demo_sender_col 300 (Some 301) 1 ''c1'' ?b demo_db)
      = [([212, 207], [''Hello'', ''Hi!'', ''More'']), ([301, 207], [''Hello'', ''Hi!'', ''More''])]"
    unfolding sts demo_append[of 300 301] by (simp add: messages_of_def demo_db_def)
  have view_rej: "map (\<lambda>s. (map c_updated_at (chats s), map m_content (messages_of s ''c1'')))
        (addMessage_states demo_sender_col 300 None 1 ''c1'' ?b demo_db)
      = [([212, 207], [''Hello'', ''Hi!'', ''More''])]"
    unfolding rej demo_append[of 300 301] by (simp add: messages_of_def demo_db_def)
  have none: "addMessage_states demo_sender_col 300 (Some 301) 2 ''c1'' ?b demo_db = []"
    by (rule r[THEN conjunct2, THEN conjunct1, THEN mp, OF disjI2, OF no])
  have same: "snd (addMessage demo_sender_col 300 (Some 301) 2 ''c1'' ?b demo_db) = demo_db"
    by (rule r[THEN conjunct2, THEN conjunct2, THEN conjunct2, THEN mp, OF none])
  have ins: "addMessage_insert demo_sender_col 300 ''c1'' ''bot'' ''More'' ?bb demo_db = None"
    by (simp add: addMessage_insert_def insert_message_def demo_sender_col_def demo_db_def)
  have h: "b_sender ?bb = Some ''bot'' \<and> b_content ?bb = Some ''More''
           \<and> addMessage_insert demo_sender_col 300 ''c1'' ''bot'' ''More'' ?bb demo_db = None"
    using ins by simp
  note q = addMessage_two_commits[of demo_sender_col 300 301 1 "''c1''" ?bb demo_db "Some 301" "''bot''" "''More''"]
  have refused: "addMessage_states demo_sender_col 300 (Some 301) 1 ''c1'' ?bb demo_db = []"
    by (rule q[THEN conjunct2, THEN conjunct2, THEN conjunct1, THEN mp, OF h])
  from ok view view_rej no none same ins refused show ?thesis
    by (intro conjI)
qed

theorem addMessage_two_commits_counterexample:
  "map (\<lambda>s. (map c_updated_at (select_chat s ''c1'' 1), map m_timestamp (messages_of s ''c1'')))
        (addMessage_states demo_sender_col 300 (Some 301) 1 ''c1''
          \<lparr>b_sender = Some ''user'', b_content = Some ''More'', b_model = None, b_response_info = None\<rparr>
          demo_db)
      = [([212], [210, 212, 300]), ([301], [210, 212, 300])]
   \<and> fst (addMessage demo_sender_col 300 None 1 ''c1''
          \<lparr>b_sender = Some ''user'', b_content = Some ''More'', b_model = None, b_response_info = None\<rparr>
          demo_db) = (500, ErrorBody ''Internal server error'')
   \<and> map c_updated_at (select_chat (snd (addMessage demo_sender_col 300 None 1 ''c1''
          \<lparr>b_sender = Some ''user'', b_content = Some ''More'', b_model = None, b_response_info = None\<rparr>
          demo_db)) ''c1'' 1) = [212]
   \<and> map m_timestamp (messages_of (snd (addMessage demo_sender_col 300 None 1 ''c1''
          \<lparr>b_sender = Some ''user'', b_content = Some ''More'', b_model = None, b_response_info = None\<rparr>
          demo_db)) ''c1'') = [210, 212, 300]"
proof -
  let ?b = "\<lparr>b_sender = Some ''user'', b_content = Some ''More'', b_model = None, b_response_info = None\<rparr>"
  have a: "map (\<lambda>s. (map c_updated_at (select_chat s ''c1'' 1), map m_timestamp (messages_of s ''c1'')))
        (addMessage_states demo_sender_col 300 (Some 301) 1 ''c1'' ?b demo_db)
      = [([212], [210, 212, 300]), ([301], [210, 212, 300])]"
    by (simp add: addMessage_states_def addMessage_insert_def insert_message_def select_chat_def
          touch_chat_def or_null_def falsy_def demo_sender_col_def varchar_def varchar_opt_def
          messages_of_def demo_db_def)
  have b: "fst (addMessage demo_sender_col 300 None 1 ''c1'' ?b demo_db)
             = (500, ErrorBody ''Internal server error'')"
    unfolding demo_append_rejected[of 300] by simp
  have c: "map c_updated_at (select_chat (snd (addMessage demo_sender_col 300 None 1 ''c1'' ?b demo_db))
             ''c1'' 1) = [212]"
    unfolding demo_append_rejected[of 300] by (simp add: select_chat_def demo_db_def)
  have d: "map m_timestamp (messages_of (snd (addMessage demo_sender_col 300 None 1 ''c1'' ?b demo_db))
             ''c1'') = [210, 212, 300]"
    unfolding demo_append_rejected[of 300] by (simp add: messages_of_def demo_db_def)
  from a b c d show ?thesis
    by (intro conjI)
qed

section \<open>Ordered queries\<close>

lemma order_by_desc_set:
  assumes "order_by_desc k rows res"
  shows "set res = set rows" and "length res = length rows"
    and "sorted_wrt (\<lambda>a b. k b \<le> k a) res"
proof -
  from assms have m: "mset res = mset rows"
    by (simp add: order_by_desc_def)
  show "set res = set rows" using m by (rule mset_eq_setD)
  show "length res = length rows" using m by (rule mset_eq_length)
  show "sorted_wrt (\<lambda>a b. k b \<le> k a) res"
    using assms by (simp add: order_by_desc_def)
qed

lemma order_by_desc_total: "order_by_desc k rows (rev (sort_key k rows))"
proof -
  have "sorted_wrt (\<lambda>a b. k a \<le> k b) (sort_key k rows)"
    using sorted_sort_key[of k rows] by (simp add: sorted_map)
  then have "sorted_wrt (\<lambda>a b. k b \<le> k a) (rev (sort_key k rows))"
    by (simp add: sorted_wrt_rev)
  then show ?thesis
    by (simp add: order_by_desc_def)
qed

lemma order_by_asc_total: "order_by_asc k rows (sort_key k rows)"
  using sorted_sort_key[of k rows] by (simp add: order_by_asc_def sorted_map)

lemma last_message_total: "\<exists>v. last_message_of ms v"
proof (cases "ms = []")
  case True
  then have "last_message_of ms None"
    by (simp add: last_message_of_def)
  then show ?thesis ..
next
  case False
  let ?T = "m_timestamp ` set ms"
  have fin: "finite ?T" and ne: "?T \<noteq> {}"
    using False by simp_all
  from Max_in[OF fin ne] obtain m where m: "m \<in> set ms" "m_timestamp m = Max ?T"
    by auto
  have "\<forall>m' \<in> set ms. m_timestamp m' \<le> m_timestamp m"
    using Max_ge[OF fin] m(2) by simp
  with m(1) have "last_message_of ms (Some (m_content m))"
    by (auto simp: last_message_of_def)
  then show ?thesis ..
qed

text \<open>
  The value of the subquery, as defined, is what \<^verbatim>\<open>ORDER BY timestamp DESC LIMIT 1\<close>
  selects from some admissible order of the rows.
\<close>

lemma last_message_of_order_by:
  "last_message_of ms v \<longleftrightarrow>
     (\<exists>res. order_by_desc m_timestamp ms res \<and> v = map_option m_content (limit1 res))"
proof
  assume l: "last_message_of ms v"
  show "\<exists>res. order_by_desc m_timestamp ms res \<and> v = map_option m_content (limit1 res)"
  proof (cases v)
    case None
    with l have "ms = []" by (simp add: last_message_of_def)
    then have "order_by_desc m_timestamp ms [] \<and> v = map_option m_content (limit1 [])"
      using None by (simp add: order_by_desc_def limit1_def)
    then show ?thesis ..
  next
    case (Some s)
    with l obtain m where m: "m \<in> set ms" "m_content m = s"
      and top: "\<forall>m' \<in> set ms. m_timestamp m' \<le> m_timestamp m"
      by (auto simp: last_message_of_def)
    let ?rest = "rev (sort_key m_timestamp (remove1 m ms))"
    have r: "order_by_desc m_timestamp (remove1 m ms) ?rest"
      by (rule order_by_desc_total)
    have ms: "mset (m # ?rest) = mset ms"
      using m(1) by simp
    have "\<forall>x \<in> set ?rest. m_timestamp x \<le> m_timestamp m"
      using top notin_set_remove1[of _ ms m] by auto
    then have "sorted_wrt (\<lambda>a b. m_timestamp b \<le> m_timestamp a) (m # ?rest)"
      using order_by_desc_set(3)[OF r] by simp
    with ms have "order_by_desc m_timestamp ms (m # ?rest)"
      by (simp add: order_by_desc_def)
    moreover have "v = map_option m_content (limit1 (m # ?rest))"
      using Some m(2) by (simp add: limit1_def)
    ultimately show ?thesis by blast
  qed
next
  assume "\<exists>res. order_by_desc m_timestamp ms res \<and> v = map_option m_content (limit1 res)"
  then obtain res where o: "order_by_desc m_timestamp ms res"
    and v: "v = map_option m_content (limit1 res)"
    by blast
  show "last_message_of ms v"
  proof (cases res)
    case Nil
    with order_by_desc_set(2)[OF o] v show ?thesis
      by (simp add: last_message_of_def limit1_def)
  next
    case (Cons x xs)
    have "x \<in> set ms"
      using order_by_desc_set(1)[OF o] Cons by auto
    moreover have "\<forall>m' \<in> set ms. m_timestamp m' \<le> m_timestamp x"
      using order_by_desc_set(1)[OF o] order_by_desc_set(3)[OF o] Cons by auto
    ultimately show ?thesis
      using v Cons by (auto simp: last_message_of_def limit1_def)
  qed
qed

section \<open>Listing a user's chats\<close>

lemma getChats_rows:
  assumes "getChats d uid res"
  shows "row_of uid ` set res = set (chats_of d uid)"
    and "length res = length (chats_of d uid)"
    and "sorted_wrt (\<lambda>a b. s_updated_at b \<le> s_updated_at a) res"
    and "\<forall>r \<in> set res. last_message_of (messages_of d (s_id r)) (s_last_message r)"
proof -
  from assms have o: "order_by_desc c_updated_at (chats_of d uid) (map (row_of uid) res)"
    by (simp add: getChats_def)
  show "row_of uid ` set res = set (chats_of d uid)"
    using order_by_desc_set(1)[OF o] by simp
  show "length res = length (chats_of d uid)"
    using order_by_desc_set(2)[OF o] by simp
  have "sorted_wrt (\<lambda>a b. c_updated_at (row_of uid b) \<le> c_updated_at (row_of uid a)) res"
    using order_by_desc_set(3)[OF o] by (simp add: sorted_wrt_map)
  then show "sorted_wrt (\<lambda>a b. s_updated_at b \<le> s_updated_at a) res"
    by (simp add: row_of_def)
  show "\<forall>r \<in> set res. last_message_of (messages_of d (s_id r)) (s_last_message r)"
    using assms by (simp add: getChats_def)
qed

lemma getChats_total: "\<exists>res. getChats d uid res"
proof -
  let ?rows = "rev (sort_key c_updated_at (chats_of d uid))"
  define pick where "pick c = (SOME v. last_message_of (messages_of d (c_id c)) v)" for c :: chat_row
  define mk where "mk c = \<lparr>s_id = c_id c, s_name = c_name c, s_model = c_model c,
      s_created_at = c_created_at c, s_updated_at = c_updated_at c,
      s_last_message = pick c\<rparr>" for c :: chat_row
  have pick: "last_message_of (messages_of d (c_id c)) (pick c)" for c
    unfolding pick_def using last_message_total by (rule someI_ex)
  have own: "\<forall>c \<in> set ?rows. c_user_id c = uid"
    by (simp add: chats_of_def)
  have "map (row_of uid) (map mk ?rows) = map (\<lambda>c. c) ?rows"
    unfolding map_map
  proof (rule map_cong[OF refl])
    fix c assume "c \<in> set ?rows"
    with own have "c_user_id c = uid" by blast
    then show "(row_of uid \<circ> mk) c = c"
      by (simp add: row_of_def mk_def)
  qed
  then have "order_by_desc c_updated_at (chats_of d uid) (map (row_of uid) (map mk ?rows))"
    using order_by_desc_total[of c_updated_at "chats_of d uid"] by simp
  moreover have "\<forall>r \<in> set (map mk ?rows). last_message_of (messages_of d (s_id r)) (s_last_message r)"
    using pick by (auto simp: mk_def)
  ultimately have "getChats d uid (map mk ?rows)"
    by (simp add: getChats_def)
  then show ?thesis ..
qed

lemma getUserChats_total: "\<exists>res. getUserChats d uid res"
proof -
  let ?rows = "rev (sort_key c_updated_at (chats_of d uid))"
  define pick where "pick c = (SOME v. last_message_of (messages_of d (c_id c)) v)" for c :: chat_row
  define mk where "mk c = (c, pick c, sort_key m_timestamp (messages_of d (c_id c)))" for c :: chat_row
  have pick: "last_message_of (messages_of d (c_id c)) (pick c)" for c
    unfolding pick_def using last_message_total by (rule someI_ex)
  have "map fst (map mk ?rows) = ?rows"
    by (simp add: mk_def comp_def)
  then have "order_by_desc c_updated_at (chats_of d uid) (map fst (map mk ?rows))"
    using order_by_desc_total[of c_updated_at "chats_of d uid"] by simp
  moreover have "\<forall>r \<in> set (map mk ?rows).
            last_message_of (messages_of d (c_id (fst r))) (fst (snd r))
            \<and> order_by_asc m_timestamp (messages_of d (c_id (fst r))) (snd (snd r))"
    using pick order_by_asc_total by (auto simp: mk_def)
  ultimately have "getUserChats d uid (map mk ?rows)"
    by (simp add: getUserChats_def)
  then show ?thesis ..
qed

lemma last_message_strictly_newest:
  assumes l: "last_message_of ms v"
    and m: "m \<in> set ms"
    and top: "\<forall>m' \<in> set ms. m' \<noteq> m \<longrightarrow> m_timestamp m' < m_timestamp m"
  shows "v = Some (m_content m)"
proof (cases v)
  case None
  with l m show ?thesis by (simp add: last_message_of_def)
next
  case (Some s)
  with l obtain x where x: "x \<in> set ms" "m_content x = s"
    and ge: "\<forall>y \<in> set ms. m_timestamp y \<le> m_timestamp x"
    by (auto simp: last_message_of_def)
  have "x = m"
  proof (rule ccontr)
    assume "x \<noteq> m"
    with top x(1) have "m_timestamp x < m_timestamp m" by blast
    moreover from ge m have "m_timestamp m \<le> m_timestamp x" by blast
    ultimately show False by simp
  qed
  with x(2) Some show ?thesis by simp
qed

lemma foldl_newer_strict:
  assumes "m \<in> set (a # xs)"
    and "\<forall>m' \<in> set (a # xs). m' \<noteq> m \<longrightarrow> m_timestamp m' < m_timestamp m"
  shows "foldl newer a xs = m"
  using assms
proof (induction xs arbitrary: a)
  case Nil
  then show ?case by simp
next
  case (Cons x xs)
  have step: "newer a x = m \<or> (newer a x \<noteq> m \<and> m \<in> set xs)"
  proof (cases "m = a")
    case True
    then have "newer a x = a"
      using Cons.prems(2) by (cases "x = a") (auto simp: newer_def)
    with True show ?thesis by simp
  next
    case False
    show ?thesis
    proof (cases "m = x")
      case True
      with False Cons.prems(2) have "m_timestamp a < m_timestamp x" by auto
      then have "newer a x = x" by (simp add: newer_def)
      with True show ?thesis by simp
    next
      case nx: False
      with False Cons.prems(1) have "m \<in> set xs" by simp
      moreover have "newer a x \<noteq> m"
        using False nx by (auto simp: newer_def)
      ultimately show ?thesis by simp
    qed
  qed
  have mem: "m \<in> set (newer a x # xs)"
    using step by auto
  have sub: "set (newer a x # xs) \<subseteq> set (a # x # xs)"
    by (auto simp: newer_def)
  have "\<forall>m' \<in> set (newer a x # xs). m' \<noteq> m \<longrightarrow> m_timestamp m' < m_timestamp m"
    using Cons.prems(2) sub by blast
  with mem have "foldl newer (newer a x) xs = m"
    by (rule Cons.IH)
  then show ?case by simp
qed

text \<open>
  A message of the chat that is later than every other one is the specification's most
  recent message.
\<close>

lemma most_recent_strict:
  assumes "m \<in> set ms"
    and "\<forall>m' \<in> set ms. m' \<noteq> m \<longrightarrow> m_timestamp m' < m_timestamp m"
  shows "most_recent ms = Some m"
proof (cases ms)
  case Nil
  with assms(1) show ?thesis by simp
next
  case (Cons a xs)
  with assms have "foldl newer a xs = m"
    by (intro foldl_newer_strict) simp_all
  with Cons show ?thesis by (simp add: most_recent_def)
qed

text \<open>
  C6 (as amended). The chats query has an answer, and every answer it may give for user
  \<open>uid\<close> is exactly that user's chats: each row of the answer is a chat row of \<open>uid\<close>,
  each chat row of \<open>uid\<close> is in the answer, with as many rows as the user has chats, and
  under the primary key no row has the id of a chat of another user. The rows are in
  descending order of \<^verbatim>\<open>updated_at\<close>. \<^verbatim>\<open>last_message\<close> is absent exactly for a chat
  without messages and is otherwise the content of a message of that chat that no message
  of the chat is later than: the most recent message when it is later than every other
  one, and any of the latest when several have the latest timestamp. The PHP
  \<open>getUserChats\<close> answers the same rows in the same order with the same \<^verbatim>\<open>last_message\<close>.
\<close>

theorem listForUser:
  "(\<exists>res. getChats d uid res)
   \<and> (getChats d uid res \<longrightarrow>
        (\<forall>r \<in> set res. row_of uid r \<in> set (chats d) \<and> c_user_id (row_of uid r) = uid)
      \<and> (\<forall>c \<in> set (chats d). c_user_id c = uid \<longrightarrow> (\<exists>r \<in> set res. row_of uid r = c))
      \<and> length res = length (filter (\<lambda>c. c_user_id c = uid) (chats d))
      \<and> (distinct (map c_id (chats d)) \<longrightarrow>
           (\<forall>r \<in> set res. \<forall>c \<in> set (chats d). c_user_id c \<noteq> uid \<longrightarrow> c_id c \<noteq> s_id r))
      \<and> sorted_wrt (\<lambda>a b. s_updated_at a \<ge> s_updated_at b) res
      \<and> (\<forall>r \<in> set res.
            (s_last_message r = None \<longleftrightarrow> messages_of d (s_id r) = [])
          \<and> (\<forall>s. s_last_message r = Some s \<longrightarrow>
                (\<exists>m \<in> set (messages d). m_chat_id m = s_id r \<and> m_content m = s
                   \<and> (\<forall>m' \<in> set (messages d). m_chat_id m' = s_id r \<longrightarrow>
                         m_timestamp m' \<le> m_timestamp m))))
      \<and> (\<forall>r \<in> set res. \<forall>m \<in> set (messages_of d (s_id r)).
            (\<forall>m' \<in> set (messages_of d (s_id r)). m' \<noteq> m \<longrightarrow> m_timestamp m' < m_timestamp m)
            \<longrightarrow> s_last_message r = Some (m_content m)))
   \<and> (\<exists>pres. getUserChats d uid pres)
   \<and> (getUserChats d uid pres \<longrightarrow>
        set (map fst pres) = {c \<in> set (chats d). c_user_id c = uid}
      \<and> length pres = length (filter (\<lambda>c. c_user_id c = uid) (chats d))
      \<and> sorted_wrt (\<lambda>a b. c_updated_at (fst a) \<ge> c_updated_at (fst b)) pres
      \<and> (\<forall>r \<in> set pres. last_message_of (messages_of d (c_id (fst r))) (fst (snd r)))
      \<and> (\<forall>r \<in> set pres. \<forall>m \<in> set (messages_of d (c_id (fst r))).
            (\<forall>m' \<in> set (messages_of d (c_id (fst r))). m' \<noteq> m \<longrightarrow>
                m_timestamp m' < m_timestamp m)
            \<longrightarrow> fst (snd r) = Some (m_content m)))"
proof (intro conjI impI)
  show "\<exists>res. getChats d uid res" by (rule getChats_total)
  show "\<exists>pres. getUserChats d uid pres" by (rule getUserChats_total)
next
  assume g: "getChats d uid res"
  note rows = getChats_rows[OF g]
  show only: "\<forall>r \<in> set res. row_of uid r \<in> set (chats d) \<and> c_user_id (row_of uid r) = uid"
    using rows(1) by (auto simp: chats_of_def row_of_def)
  show "\<forall>c \<in> set (chats d). c_user_id c = uid \<longrightarrow> (\<exists>r \<in> set res. row_of uid r = c)"
  proof (intro ballI impI)
    fix c assume "c \<in> set (chats d)" "c_user_id c = uid"
    then have "c \<in> row_of uid ` set res"
      unfolding rows(1) by (simp add: chats_of_def)
    then show "\<exists>r \<in> set res. row_of uid r = c" by blast
  qed
  show "length res = length (filter (\<lambda>c. c_user_id c = uid) (chats d))"
    using rows(2) by (simp add: chats_of_def)
  show "sorted_wrt (\<lambda>a b. s_updated_at a \<ge> s_updated_at b) res"
    using rows(3) .
  show "\<forall>r \<in> set res.
            (s_last_message r = None \<longleftrightarrow> messages_of d (s_id r) = [])
          \<and> (\<forall>s. s_last_message r = Some s \<longrightarrow>
                (\<exists>m \<in> set (messages d). m_chat_id m = s_id r \<and> m_content m = s
                   \<and> (\<forall>m' \<in> set (messages d). m_chat_id m' = s_id r \<longrightarrow>
                         m_timestamp m' \<le> m_timestamp m)))"
  proof
    fix r assume "r \<in> set res"
    with rows(4) have l: "last_message_of (messages_of d (s_id r)) (s_last_message r)"
      by blast
    show "(s_last_message r = None \<longleftrightarrow> messages_of d (s_id r) = [])
          \<and> (\<forall>s. s_last_message r = Some s \<longrightarrow>
                (\<exists>m \<in> set (messages d). m_chat_id m = s_id r \<and> m_content m = s
                   \<and> (\<forall>m' \<in> set (messages d). m_chat_id m' = s_id r \<longrightarrow>
                         m_timestamp m' \<le> m_timestamp m)))"
      using l by (cases "s_last_message r")
           (auto simp: last_message_of_def messages_of_def filter_empty_conv)
  qed
  show "\<forall>r \<in> set res. \<forall>m \<in> set (messages_of d (s_id r)).
            (\<forall>m' \<in> set (messages_of d (s_id r)). m' \<noteq> m \<longrightarrow> m_timestamp m' < m_timestamp m)
            \<longrightarrow> s_last_message r = Some (m_content m)"
    using rows(4) last_message_strictly_newest by blast
  assume dist: "distinct (map c_id (chats d))"
  show "\<forall>r \<in> set res. \<forall>c \<in> set (chats d). c_user_id c \<noteq> uid \<longrightarrow> c_id c \<noteq> s_id r"
  proof (intro ballI impI)
    fix r c assume r: "r \<in> set res" and c: "c \<in> set (chats d)" and o: "c_user_id c \<noteq> uid"
    from only r have m: "row_of uid r \<in> set (chats d)" and u: "c_user_id (row_of uid r) = uid"
      by blast+
    show "c_id c \<noteq> s_id r"
    proof
      assume "c_id c = s_id r"
      then have "c_id c = c_id (row_of uid r)" by (simp add: row_of_def)
      with dist c m have "c = row_of uid r"
        by (meson distinct_map inj_onD)
      with u o show False by simp
    qed
  qed
next
  assume g: "getUserChats d uid pres"
  then have o: "order_by_desc c_updated_at (chats_of d uid) (map fst pres)"
    by (simp add: getUserChats_def)
  show "set (map fst pres) = {c \<in> set (chats d). c_user_id c = uid}"
    using order_by_desc_set(1)[OF o] by (auto simp: chats_of_def)
  show "length pres = length (filter (\<lambda>c. c_user_id c = uid) (chats d))"
    using order_by_desc_set(2)[OF o] by (simp add: chats_of_def)
  show "sorted_wrt (\<lambda>a b. c_updated_at (fst a) \<ge> c_updated_at (fst b)) pres"
    using order_by_desc_set(3)[OF o] by (simp add: sorted_wrt_map)
  show lm: "\<forall>r \<in> set pres. last_message_of (messages_of d (c_id (fst r))) (fst (snd r))"
    using g by (simp add: getUserChats_def)
  show "\<forall>r \<in> set pres. \<forall>m \<in> set (messages_of d (c_id (fst r))).
            (\<forall>m' \<in> set (messages_of d (c_id (fst r))). m' \<noteq> m \<longrightarrow>
                m_timestamp m' < m_timestamp m)
            \<longrightarrow> fst (snd r) = Some (m_content m)"
    using lm last_message_strictly_newest by blast
qed

theorem listForUser_witness:
  "getChats demo_db 1
     [\<lparr>s_id = ''c1'', s_name = ''Test'', s_model = ''llama2'', s_created_at = 200,
       s_updated_at = 212, s_last_message = Some ''Hi!''\<rparr>]
   \<and> length [\<lparr>s_id = ''c1'', s_name = ''Test'', s_model = ''llama2'', s_created_at = 200,
       s_updated_at = 212, s_last_message = Some ''Hi!''\<rparr>]
       = length (filter (\<lambda>c. c_user_id c = 1) (chats demo_db))
   \<and> distinct (map c_id (chats demo_db))
   \<and> getUserChats demo_db 2
     [(\<lparr>c_id = ''c2'', c_user_id = 2, c_name = ''Notes'', c_model = ''mistral'',
        c_created_at = 205, c_updated_at = 207\<rparr>, Some ''Remember'',
       [\<lparr>m_id = 2, m_chat_id = ''c2'', m_sender = ''user'', m_content = ''Remember'',
         m_model = None, m_response_info = None, m_timestamp = 207\<rparr>])]
   \<and> set (map fst
     [(\<lparr>c_id = ''c2'', c_user_id = 2, c_name = ''Notes'', c_model = ''mistral'',
        c_created_at = 205, c_updated_at = 207\<rparr>, Some ''Remember'',
       [\<lparr>m_id = 2, m_chat_id = ''c2'', m_sender = ''user'', m_content = ''Remember'',
         m_model = None, m_response_info = None, m_timestamp = 207\<rparr>])])
       = {c \<in> set (chats demo_db). c_user_id c = 2}"
proof -
  let ?res = "[\<lparr>s_id = ''c1'', s_name = ''Test'', s_model = ''llama2'', s_created_at = 200,
       s_updated_at = 212, s_last_message = Some ''Hi!''\<rparr>]"
  let ?pres = "[(\<lparr>c_id = ''c2'', c_user_id = 2, c_name = ''Notes'', c_model = ''mistral'',
        c_created_at = 205, c_updated_at = 207\<rparr>, Some ''Remember'',
       [\<lparr>m_id = 2, m_chat_id = ''c2'', m_sender = ''user'', m_content = ''Remember'',
         m_model = None, m_response_info = None, m_timestamp = 207\<rparr>])]"
  have g: "getChats demo_db 1 ?res"
    by (simp add: getChats_def order_by_desc_def chats_of_def row_of_def last_message_of_def
          messages_of_def demo_db_def)
  have p: "getUserChats demo_db 2 ?pres"
    by (simp add: getUserChats_def order_by_desc_def order_by_asc_def chats_of_def
          last_message_of_def messages_of_def demo_db_def)
  have dist: "distinct (map c_id (chats demo_db))"
    by (simp add: demo_db_def)
  note t = listForUser[of demo_db 1 ?res "[]"]
  note u = listForUser[of demo_db 2 "[]" ?pres]
  have l: "length ?res = length (filter (\<lambda>c. c_user_id c = 1) (chats demo_db))"
    using t g by blast
  have s: "set (map fst ?pres) = {c \<in> set (chats demo_db). c_user_id c = 2}"
    using u p by blast
  from g l dist p s show ?thesis
    by (intro conjI)
qed

text \<open>
  After \<^verbatim>\<open>More\<close> is appended to \<^verbatim>\<open>c1\<close> in the second of \<^verbatim>\<open>Hi!\<close>, the most recent
  message is \<^verbatim>\<open>More\<close>, and the chats query may still answer \<^verbatim>\<open>Hi!\<close>, in both backends.
\<close>

theorem listForUser_counterexample:
  "fst (fst (addMessage demo_sender_col 212 (Some 212) 1 ''c1''
     \<lparr>b_sender = Some ''user'', b_content = Some ''More'', b_model = None, b_response_info = None\<rparr>
     demo_db)) = 201
   \<and> map_option m_content (most_recent (messages_of (snd (addMessage demo_sender_col 212 (Some 212) 1 ''c1''
     \<lparr>b_sender = Some ''user'', b_content = Some ''More'', b_model = None, b_response_info = None\<rparr>
     demo_db)) ''c1'')) = Some ''More''
   \<and> getChats (snd (addMessage demo_sender_col 212 (Some 212) 1 ''c1''
     \<lparr>b_sender = Some ''user'', b_content = Some ''More'', b_model = None, b_response_info = None\<rparr>
     demo_db)) 1
     [\<lparr>s_id = ''c1'', s_name = ''Test'', s_model = ''llama2'', s_created_at = 200,
       s_updated_at = 212, s_last_message = Some ''Hi!''\<rparr>]
   \<and> getUserChats (snd (addMessage demo_sender_col 212 (Some 212) 1 ''c1''
     \<lparr>b_sender = Some ''user'', b_content = Some ''More'', b_model = None, b_response_info = None\<rparr>
     demo_db)) 1
     [(\<lparr>c_id = ''c1'', c_user_id = 1, c_name = ''Test'', c_model = ''llama2'',
        c_created_at = 200, c_updated_at = 212\<rparr>, Some ''Hi!'',
       [\<lparr>m_id = 1, m_chat_id = ''c1'', m_sender = ''user'', m_content = ''Hello'',
         m_model = None, m_response_info = None, m_timestamp = 210\<rparr>,
        \<lparr>m_id = 3, m_chat_id = ''c1'', m_sender = ''ai'', m_content = ''Hi!'',
         m_model = Some ''llama2'', m_response_info = Some ''1.2s'', m_timestamp = 212\<rparr>,
        \<lparr>m_id = 4, m_chat_id = ''c1'', m_sender = ''user'', m_content = ''More'',
         m_model = None, m_response_info = None, m_timestamp = 212\<rparr>])]"
proof -
  let ?b = "\<lparr>b_sender = Some ''user'', b_content = Some ''More'', b_model = None, b_response_info = None\<rparr>"
  have ok: "fst (fst (addMessage demo_sender_col 212 (Some 212) 1 ''c1'' ?b demo_db)) = 201"
    using demo_append[of 212 212] by simp
  have mr: "map_option m_content (most_recent (messages_of
              (snd (addMessage demo_sender_col 212 (Some 212) 1 ''c1'' ?b demo_db)) ''c1'')) = Some ''More''"
    unfolding demo_append[of 212 212]
    by (simp add: most_recent_def newer_def messages_of_def demo_db_def)
  have g: "getChats (snd (addMessage demo_sender_col 212 (Some 212) 1 ''c1'' ?b demo_db)) 1
     [\<lparr>s_id = ''c1'', s_name = ''Test'', s_model = ''llama2'', s_created_at = 200,
       s_updated_at = 212, s_last_message = Some ''Hi!''\<rparr>]"
    unfolding demo_append[of 212 212]
    by (simp add: getChats_def order_by_desc_def chats_of_def row_of_def last_message_of_def
          messages_of_def demo_db_def)
  have p: "getUserChats (snd (addMessage demo_sender_col 212 (Some 212) 1 ''c1'' ?b demo_db)) 1
     [(\<lparr>c_id = ''c1'', c_user_id = 1, c_name = ''Test'', c_model = ''llama2'',
        c_created_at = 200, c_updated_at = 212\<rparr>, Some ''Hi!'',
       [\<lparr>m_id = 1, m_chat_id = ''c1'', m_sender = ''user'', m_content = ''Hello'',
         m_model = None, m_response_info = None, m_timestamp = 210\<rparr>,
        \<lparr>m_id = 3, m_chat_id = ''c1'', m_sender = ''ai'', m_content = ''Hi!'',
         m_model = Some ''llama2'', m_response_info = Some ''1.2s'', m_timestamp = 212\<rparr>,
        \<lparr>m_id = 4, m_chat_id = ''c1'', m_sender = ''user'', m_content = ''More'',
         m_model = None, m_response_info = None, m_timestamp = 212\<rparr>])]"
    unfolding demo_append[of 212 212]
    by (simp add: getUserChats_def order_by_desc_def order_by_asc_def chats_of_def
          last_message_of_def messages_of_def demo_db_def)
  from ok mr g p show ?thesis
    by (intro conjI)
qed

section \<open>Deleting, then reading\<close>

lemma last_message_of_none:
  assumes "last_message_of [] v"
  shows "v = None"
  using assms by (cases v) (simp_all add: last_message_of_def)

text \<open>
  C2. A chat that its owner deletes is gone with all of its messages. In the Node backend
  the DELETE of a chat the user owns answers 200; afterwards the user does not own the
  chat, GET on it answers 404 and nothing else, the messages table has no row of that
  chat, no response of GET (for any user and chat id) carries a message of it, no answer
  of the chats query for the user has the chat, and no answer of the chats query for
  anyone has a \<^verbatim>\<open>last_message\<close> for that id. In the PHP backend a successful
  \<open>deleteChat\<close> leaves no chat with that id and no message of it.
\<close>

theorem deleteChat_cascade:
  assumes own: "owns d uid cid"
  shows "fst (deleteChat uid cid d) = (200, MessageBody ''Chat deleted successfully'')
       \<and> \<not> owns (snd (deleteChat uid cid d)) uid cid
       \<and> (\<forall>resp. getChat (snd (deleteChat uid cid d)) uid cid resp \<longleftrightarrow> resp = chat_not_found)
       \<and> (\<forall>m \<in> set (messages (snd (deleteChat uid cid d))). m_chat_id m \<noteq> cid)
       \<and> (\<forall>v c' resp. getChat (snd (deleteChat uid cid d)) v c' resp \<longrightarrow>
             (\<forall>m \<in> set (body_messages (snd resp)). m_chat_id m \<noteq> cid))
       \<and> (\<forall>res. getChats (snd (deleteChat uid cid d)) uid res \<longrightarrow>
             (\<forall>r \<in> set res. s_id r \<noteq> cid))
       \<and> (\<forall>v res. getChats (snd (deleteChat uid cid d)) v res \<longrightarrow>
             (\<forall>r \<in> set res. s_id r = cid \<longrightarrow> s_last_message r = None))
       \<and> (fst (php_deleteChat uid cid d) = PhpSuccess \<longrightarrow>
             (\<forall>c \<in> set (chats (snd (php_deleteChat uid cid d))). c_id c \<noteq> cid)
           \<and> (\<forall>m \<in> set (messages (snd (php_deleteChat uid cid d))). m_chat_id m \<noteq> cid))"
proof -
  let ?P = "\<lambda>c. c_id c = cid \<and> c_user_id c = uid"
  let ?d' = "snd (deleteChat uid cid d)"
  have d': "?d' = snd (delete_chats ?P d)"
    by (simp add: deleteChat_def split: prod.splits)
  from own obtain c where c: "c \<in> set (chats d)" "?P c"
    by (auto simp: owns_def)
  have ok: "fst (deleteChat uid cid d) = (200, MessageBody ''Chat deleted successfully'')"
    using own by (rule deleteChat_owned)
  have gone: "\<not> owns ?d' uid cid"
    using delete_chats_chats[of ?P d] unfolding d' owns_def by blast
  have nf: "\<forall>resp. getChat ?d' uid cid resp \<longleftrightarrow> resp = chat_not_found"
    using gone by (simp add: getChat_not_owned_iff)
  have msgs: "\<forall>m \<in> set (messages ?d'). m_chat_id m \<noteq> cid"
    using delete_chats_messages[of c d ?P] c unfolding d' by simp
  then have empty: "messages_of ?d' cid = []"
    by (simp add: messages_of_def filter_empty_conv)
  have any: "\<forall>v c' resp. getChat ?d' v c' resp \<longrightarrow>
      (\<forall>m \<in> set (body_messages (snd resp)). m_chat_id m \<noteq> cid)"
  proof (intro allI impI ballI)
    fix v c' resp m
    assume g: "getChat ?d' v c' resp" and m: "m \<in> set (body_messages (snd resp))"
    from getChat_messages[OF g] m have "m \<in> set (messages ?d')"
      by (auto simp: messages_of_def)
    with msgs show "m_chat_id m \<noteq> cid" by blast
  qed
  have lst: "\<forall>res. getChats ?d' uid res \<longrightarrow> (\<forall>r \<in> set res. s_id r \<noteq> cid)"
  proof (intro allI impI ballI notI)
    fix res r
    assume g: "getChats ?d' uid res" and r: "r \<in> set res" and i: "s_id r = cid"
    from r have "row_of uid r \<in> set (chats_of ?d' uid)"
      using getChats_rows(1)[OF g] by blast
    then have "row_of uid r \<in> set (chats ?d')"
      by (simp add: chats_of_def)
    moreover have "c_id (row_of uid r) = cid" "c_user_id (row_of uid r) = uid"
      using i by (simp_all add: row_of_def)
    ultimately have "owns ?d' uid cid"
      unfolding owns_def by blast
    with gone show False ..
  qed
  have prev: "\<forall>v res. getChats ?d' v res \<longrightarrow>
      (\<forall>r \<in> set res. s_id r = cid \<longrightarrow> s_last_message r = None)"
  proof (intro allI impI ballI)
    fix v res r
    assume g: "getChats ?d' v res" and r: "r \<in> set res" and i: "s_id r = cid"
    from getChats_rows(4)[OF g] r i have "last_message_of [] (s_last_message r)"
      using empty by auto
    then show "s_last_message r = None"
      by (rule last_message_of_none)
  qed
  have php: "fst (php_deleteChat uid cid d) = PhpSuccess \<longrightarrow>
             (\<forall>c \<in> set (chats (snd (php_deleteChat uid cid d))). c_id c \<noteq> cid)
           \<and> (\<forall>m \<in> set (messages (snd (php_deleteChat uid cid d))). m_chat_id m \<noteq> cid)"
  proof
    assume s: "fst (php_deleteChat uid cid d) = PhpSuccess"
    let ?Q = "\<lambda>c. c_id c = cid"
    have e: "snd (php_deleteChat uid cid d) = snd (delete_chats ?Q d)"
      using s by (rule php_deleteChat_success)
    have "\<forall>m \<in> set (messages (snd (delete_chats ?Q d))). m_chat_id m \<noteq> cid"
      using delete_chats_messages[of c d ?Q] c by simp
    moreover have "\<forall>c \<in> set (chats (snd (delete_chats ?Q d))). c_id c \<noteq> cid"
      using delete_chats_chats[of ?Q d] by simp
    ultimately show "(\<forall>c \<in> set (chats (snd (php_deleteChat uid cid d))). c_id c \<noteq> cid)
           \<and> (\<forall>m \<in> set (messages (snd (php_deleteChat uid cid d))). m_chat_id m \<noteq> cid)"
      unfolding e by blast
  qed
  from ok gone nf msgs any lst prev php show ?thesis by blast
qed

theorem deleteChat_cascade_witness:
  "owns demo_db 1 ''c1''
   \<and> fst (deleteChat 1 ''c1'' demo_db) = (200, MessageBody ''Chat deleted successfully'')
   \<and> \<not> owns (snd (deleteChat 1 ''c1'' demo_db)) 1 ''c1''
   \<and> map m_id (messages (snd (deleteChat 1 ''c1'' demo_db))) = [2]
   \<and> getChat (snd (deleteChat 1 ''c1'' demo_db)) 1 ''c1'' chat_not_found
   \<and> getChats (snd (deleteChat 1 ''c1'' demo_db)) 1 []
   \<and> fst (php_deleteChat 1 ''c1'' demo_db) = PhpSuccess
   \<and> map c_id (chats (snd (php_deleteChat 1 ''c1'' demo_db))) = [''c2'']"
proof -
  have own: "owns demo_db 1 ''c1''"
    by (simp add: owns_def demo_db_def)
  have ms: "map m_id (messages (snd (deleteChat 1 ''c1'' demo_db))) = [2]"
    by (simp add: deleteChat_def delete_chats_def demo_db_def Let_def)
  have ls: "getChats (snd (deleteChat 1 ''c1'' demo_db)) 1 []"
    by (simp add: getChats_def order_by_desc_def chats_of_def deleteChat_def delete_chats_def
          demo_db_def Let_def)
  have php: "fst (php_deleteChat 1 ''c1'' demo_db) = PhpSuccess"
    by (simp add: php_deleteChat_def demo_db_def)
  have cs: "map c_id (chats (snd (php_deleteChat 1 ''c1'' demo_db))) = [''c2'']"
    by (simp add: php_deleteChat_def delete_chats_def demo_db_def Let_def)
  note t = deleteChat_cascade[OF own]
  have ok: "fst (deleteChat 1 ''c1'' demo_db) = (200, MessageBody ''Chat deleted successfully'')"
    using t by blast
  have gone: "\<not> owns (snd (deleteChat 1 ''c1'' demo_db)) 1 ''c1''"
    using t by blast
  have nf: "getChat (snd (deleteChat 1 ''c1'' demo_db)) 1 ''c1'' chat_not_found"
    using t by blast
  from own ok gone ms nf ls php cs show ?thesis
    by (intro conjI)
qed

section \<open>Appending, then listing\<close>

lemma touch_chat_chats:
  "chats (touch_chat t cid d) =
     map (\<lambda>c. if c_id c = cid then c\<lparr>c_updated_at := t\<rparr> else c) (chats d)"
  by (simp add: touch_chat_def)

lemma touch_chat_updated:
  "\<forall>ch \<in> set (chats (touch_chat t cid d)). c_id ch = cid \<longrightarrow> c_updated_at ch = t"
proof (intro ballI impI)
  fix ch assume m: "ch \<in> set (chats (touch_chat t cid d))" and i: "c_id ch = cid"
  from m obtain c0 where c0: "c0 \<in> set (chats d)"
    and e: "ch = (if c_id c0 = cid then c0\<lparr>c_updated_at := t\<rparr> else c0)"
    unfolding touch_chat_chats by auto
  show "c_updated_at ch = t"
  proof (cases "c_id c0 = cid")
    case True
    with e show ?thesis by simp
  next
    case False
    with e i show ?thesis by simp
  qed
qed

lemma touch_chat_owns:
  assumes "owns d uid cid"
  shows "owns (touch_chat t cid d) uid cid"
proof -
  from assms obtain c where c: "c \<in> set (chats d)" "c_id c = cid" "c_user_id c = uid"
    by (auto simp: owns_def)
  let ?c = "c\<lparr>c_updated_at := t\<rparr>"
  have "?c \<in> set (chats (touch_chat t cid d))"
    using c by (auto simp: touch_chat_chats intro!: image_eqI[where x = c])
  moreover have "c_id ?c = cid" "c_user_id ?c = uid"
    using c by simp_all
  ultimately show ?thesis
    unfolding owns_def by blast
qed

lemma last_message_newest:
  assumes l: "last_message_of (ms @ [m]) v"
    and old: "\<forall>x \<in> set ms. m_timestamp x < m_timestamp m"
  shows "v = Some (m_content m)"
proof (cases v)
  case None
  with l show ?thesis by (simp add: last_message_of_def)
next
  case (Some s)
  with l obtain x where x: "x \<in> set (ms @ [m])" "m_content x = s"
    and top: "\<forall>y \<in> set (ms @ [m]). m_timestamp y \<le> m_timestamp x"
    by (auto simp: last_message_of_def)
  have "x = m"
  proof (rule ccontr)
    assume "x \<noteq> m"
    with x(1) have "x \<in> set ms" by simp
    with old have "m_timestamp x < m_timestamp m" by blast
    moreover from top have "m_timestamp m \<le> m_timestamp x" by simp
    ultimately show False by simp
  qed
  with x(2) Some show ?thesis by simp
qed

text \<open>
  C3 (as amended). Let a POST of a message with content \<open>c\<close> be answered 201, the INSERT
  executed at clock reading \<open>t1\<close> and the UPDATE at \<open>t2\<close>. Then the messages table has
  one more row, of this chat, with content \<open>c\<close> and timestamp \<open>t1\<close>, and every chat row
  with this id has \<^verbatim>\<open>updated_at\<close> \<open>t2\<close>. Every answer of the chats query for the user
  afterwards has the chat, with \<^verbatim>\<open>updated_at\<close> \<open>t2\<close>; its \<^verbatim>\<open>last_message\<close> is \<open>c\<close>
  provided every earlier message of the chat has a timestamp before \<open>t1\<close>.
\<close>

theorem append_then_list:
  assumes ok: "fst (fst (addMessage sc t1 (Some t2) uid cid b d)) = 201"
    and c: "b_content b = Some c"
  shows "(let d' = snd (addMessage sc t1 (Some t2) uid cid b d) in
          (\<exists>m. messages d' = messages d @ [m]
                \<and> m_chat_id m = cid \<and> m_content m = c \<and> m_timestamp m = t1)
        \<and> (\<forall>ch \<in> set (chats d'). c_id ch = cid \<longrightarrow> c_updated_at ch = t2)
        \<and> (\<forall>res. getChats d' uid res \<longrightarrow>
              (\<exists>r \<in> set res. s_id r = cid)
            \<and> (\<forall>r \<in> set res. s_id r = cid \<longrightarrow>
                  s_updated_at r = t2
                \<and> ((\<forall>m \<in> set (messages_of d cid). m_timestamp m < t1) \<longrightarrow>
                      s_last_message r = Some c))))"
proof -
  from ok obtain s c' d1 where c': "b_content b = Some c'"
    and own: "owns d uid cid"
    and ins: "addMessage_insert sc t1 cid s c' b d = Some d1"
    and res: "addMessage sc t1 (Some t2) uid cid b d =
           ((201, MessageBody ''Message added successfully''), touch_chat t2 cid d1)"
    by (rule addMessage_created)
  from c c' have cc: "c' = c" by simp
  from insert_message_Some[OF ins[unfolded addMessage_insert_def]]
  obtain member where stored: "d1 = d\<lparr>messages := messages d @
             [\<lparr>m_id = next_message_id d, m_chat_id = cid, m_sender = member,
               m_content = c', m_model = or_null (b_model b),
               m_response_info = or_null (b_response_info b), m_timestamp = t1\<rparr>],
             next_message_id := Suc (next_message_id d)\<rparr>"
    by blast
  let ?m = "\<lparr>m_id = next_message_id d, m_chat_id = cid, m_sender = member,
               m_content = c, m_model = or_null (b_model b),
               m_response_info = or_null (b_response_info b), m_timestamp = t1\<rparr>"
  let ?d' = "touch_chat t2 cid d1"
  have d1: "d1 = d\<lparr>messages := messages d @ [?m], next_message_id := Suc (next_message_id d)\<rparr>"
    using stored cc by simp
  have msgs: "messages ?d' = messages d @ [?m]"
    by (simp add: touch_chat_def d1)
  have a: "\<exists>m. messages ?d' = messages d @ [m]
                \<and> m_chat_id m = cid \<and> m_content m = c \<and> m_timestamp m = t1"
    using msgs by (intro exI[of _ ?m]) simp
  have upd: "\<forall>ch \<in> set (chats ?d'). c_id ch = cid \<longrightarrow> c_updated_at ch = t2"
    by (rule touch_chat_updated)
  have "chats d1 = chats d"
    using ins unfolding addMessage_insert_def by (rule insert_message_chats)
  then have "owns d1 uid cid"
    using own by (simp add: owns_def)
  then have own': "owns ?d' uid cid"
    by (rule touch_chat_owns)
  have mo: "messages_of ?d' cid = messages_of d cid @ [?m]"
    by (simp add: messages_of_def msgs)
  have lst: "\<forall>res. getChats ?d' uid res \<longrightarrow>
              (\<exists>r \<in> set res. s_id r = cid)
            \<and> (\<forall>r \<in> set res. s_id r = cid \<longrightarrow>
                  s_updated_at r = t2
                \<and> ((\<forall>m \<in> set (messages_of d cid). m_timestamp m < t1) \<longrightarrow>
                      s_last_message r = Some c))"
  proof (intro allI impI)
    fix res assume g: "getChats ?d' uid res"
    note rows = getChats_rows[OF g]
    from own' obtain ch where ch: "ch \<in> set (chats ?d')" "c_id ch = cid" "c_user_id ch = uid"
      by (auto simp: owns_def)
    then have "ch \<in> row_of uid ` set res"
      unfolding rows(1) by (simp add: chats_of_def)
    then obtain r where "r \<in> set res" "row_of uid r = ch" by blast
    with ch(2) have ex: "\<exists>r \<in> set res. s_id r = cid"
      by (auto simp: row_of_def)
    have each: "\<forall>r \<in> set res. s_id r = cid \<longrightarrow>
                  s_updated_at r = t2
                \<and> ((\<forall>m \<in> set (messages_of d cid). m_timestamp m < t1) \<longrightarrow>
                      s_last_message r = Some c)"
    proof (intro ballI impI conjI)
      fix r assume r: "r \<in> set res" and i: "s_id r = cid"
      from r have "row_of uid r \<in> set (chats_of ?d' uid)"
        using rows(1) by blast
      then have "row_of uid r \<in> set (chats ?d')"
        by (simp add: chats_of_def)
      moreover have "c_id (row_of uid r) = cid"
        using i by (simp add: row_of_def)
      ultimately have "c_updated_at (row_of uid r) = t2"
        using upd by blast
      then show "s_updated_at r = t2"
        by (simp add: row_of_def)
      assume old: "\<forall>m \<in> set (messages_of d cid). m_timestamp m < t1"
      from rows(4) r i have "last_message_of (messages_of d cid @ [?m]) (s_last_message r)"
        using mo by auto
      then have "s_last_message r = Some (m_content ?m)"
        by (rule last_message_newest) (use old in simp)
      then show "s_last_message r = Some c" by simp
    qed
    from ex each show "(\<exists>r \<in> set res. s_id r = cid)
            \<and> (\<forall>r \<in> set res. s_id r = cid \<longrightarrow>
                  s_updated_at r = t2
                \<and> ((\<forall>m \<in> set (messages_of d cid). m_timestamp m < t1) \<longrightarrow>
                      s_last_message r = Some c))" ..
  qed
  have "snd (addMessage sc t1 (Some t2) uid cid b d) = ?d'"
    by (simp add: res)
  with a upd lst show ?thesis
    by (simp add: Let_def)
qed

theorem append_then_list_witness:
  "fst (fst (addMessage demo_sender_col 300 (Some 301) 1 ''c1''
     \<lparr>b_sender = Some ''user'', b_content = Some ''More'', b_model = None, b_response_info = None\<rparr>
     demo_db)) = 201
   \<and> getChats (snd (addMessage demo_sender_col 300 (Some 301) 1 ''c1''
     \<lparr>b_sender = Some ''user'', b_content = Some ''More'', b_model = None, b_response_info = None\<rparr>
     demo_db)) 1
     [\<lparr>s_id = ''c1'', s_name = ''Test'', s_model = ''llama2'', s_created_at = 200,
       s_updated_at = 301, s_last_message = Some ''More''\<rparr>]
   \<and> (\<exists>m. messages (snd (addMessage demo_sender_col 300 (Some 301) 1 ''c1''
     \<lparr>b_sender = Some ''user'', b_content = Some ''More'', b_model = None, b_response_info = None\<rparr>
     demo_db)) = messages demo_db @ [m]
         \<and> m_chat_id m = ''c1'' \<and> m_content m = ''More'' \<and> m_timestamp m = 300)"
proof -
  let ?b = "\<lparr>b_sender = Some ''user'', b_content = Some ''More'', b_model = None, b_response_info = None\<rparr>"
  let ?res = "[\<lparr>s_id = ''c1'', s_name = ''Test'', s_model = ''llama2'', s_created_at = 200,
       s_updated_at = 301, s_last_message = Some ''More''\<rparr>]"
  have ok: "fst (fst (addMessage demo_sender_col 300 (Some 301) 1 ''c1'' ?b demo_db)) = 201"
    using demo_append[of 300 301] by simp
  have c: "b_content ?b = Some ''More''"
    by simp
  have g: "getChats (snd (addMessage demo_sender_col 300 (Some 301) 1 ''c1'' ?b demo_db)) 1 ?res"
    unfolding demo_append[of 300 301]
    by (simp add: getChats_def order_by_desc_def chats_of_def row_of_def last_message_of_def
          messages_of_def demo_db_def)
  have m: "\<exists>m. messages (snd (addMessage demo_sender_col 300 (Some 301) 1 ''c1'' ?b demo_db)) = messages demo_db @ [m]
         \<and> m_chat_id m = ''c1'' \<and> m_content m = ''More'' \<and> m_timestamp m = 300"
    using append_then_list[OF ok c] by (simp add: Let_def)
  from ok g m show ?thesis
    by (intro conjI)
qed

theorem append_then_list_counterexample:
  "fst (fst (addMessage demo_sender_col 300 (Some 301) 1 ''c1''
     \<lparr>b_sender = Some ''user'', b_content = Some ''More'', b_model = None, b_response_info = None\<rparr>
     demo_db)) = 201
   \<and> map m_timestamp (messages_of (snd (addMessage demo_sender_col 300 (Some 301) 1 ''c1''
     \<lparr>b_sender = Some ''user'', b_content = Some ''More'', b_model = None, b_response_info = None\<rparr>
     demo_db)) ''c1'') = [210, 212, 300]
   \<and> map c_updated_at (select_chat (snd (addMessage demo_sender_col 300 (Some 301) 1 ''c1''
     \<lparr>b_sender = Some ''user'', b_content = Some ''More'', b_model = None, b_response_info = None\<rparr>
     demo_db)) ''c1'' 1) = [301]
   \<and> fst (fst (addMessage demo_sender_col 212 (Some 212) 1 ''c1''
     \<lparr>b_sender = Some ''user'', b_content = Some ''More'', b_model = None, b_response_info = None\<rparr>
     demo_db)) = 201
   \<and> getChats (snd (addMessage demo_sender_col 212 (Some 212) 1 ''c1''
     \<lparr>b_sender = Some ''user'', b_content = Some ''More'', b_model = None, b_response_info = None\<rparr>
     demo_db)) 1
     [\<lparr>s_id = ''c1'', s_name = ''Test'', s_model = ''llama2'', s_created_at = 200,
       s_updated_at = 212, s_last_message = Some ''Hi!''\<rparr>]"
proof -
  let ?b = "\<lparr>b_sender = Some ''user'', b_content = Some ''More'', b_model = None, b_response_info = None\<rparr>"
  have ok: "fst (fst (addMessage demo_sender_col 300 (Some 301) 1 ''c1'' ?b demo_db)) = 201"
    using demo_append[of 300 301] by simp
  have ts: "map m_timestamp (messages_of (snd (addMessage demo_sender_col 300 (Some 301) 1 ''c1'' ?b demo_db)) ''c1'')
              = [210, 212, 300]"
    unfolding demo_append[of 300 301] by (simp add: messages_of_def demo_db_def)
  have up: "map c_updated_at (select_chat (snd (addMessage demo_sender_col 300 (Some 301) 1 ''c1'' ?b demo_db)) ''c1'' 1)
              = [301]"
    unfolding demo_append[of 300 301] by (simp add: select_chat_def)
  have ok2: "fst (fst (addMessage demo_sender_col 212 (Some 212) 1 ''c1'' ?b demo_db)) = 201"
    using demo_append[of 212 212] by simp
  have g: "getChats (snd (addMessage demo_sender_col 212 (Some 212) 1 ''c1'' ?b demo_db)) 1
     [\<lparr>s_id = ''c1'', s_name = ''Test'', s_model = ''llama2'', s_created_at = 200,
       s_updated_at = 212, s_last_message = Some ''Hi!''\<rparr>]"
    unfolding demo_append[of 212 212]
    by (simp add: getChats_def order_by_desc_def chats_of_def row_of_def last_message_of_def
          messages_of_def demo_db_def)
  from ok ts up ok2 g show ?thesis
    by (intro conjI)
qed

section \<open>Registration\<close>

lemma php_trim_length: "length (php_trim s) \<le> length s"
proof -
  have "length (php_trim s) \<le> length (rev (dropWhile php_blank s))"
    using length_dropWhile_le[of php_blank "rev (dropWhile php_blank s)"]
    by (simp add: php_trim_def)
  also have "\<dots> \<le> length s"
    using length_dropWhile_le[of php_blank s] by simp
  finally show ?thesis .
qed

lemma php_trim_empty: "php_trim [] = []"
  by (simp add: php_trim_def)

text \<open>
  The PHP controller refuses a registration with an empty field, a username shorter than
  three, an email that the format check refuses, or a password shorter than six, and
  creates no user.
\<close>

lemma php_register_validation:
  assumes "or_empty username = [] \<or> or_empty email = [] \<or> or_empty password = []
           \<or> length (or_empty username) < 3
           \<or> \<not> filter_validate_email (php_trim (or_empty email))
           \<or> length (or_empty password) < 6"
  shows "\<exists>msg. php_register filter_validate_email password_hash now username email password d
           = (PhpError msg, d)"
proof -
  let ?u = "php_trim (or_empty username)"
  let ?e = "php_trim (or_empty email)"
  let ?p = "or_empty password"
  have "php_empty ?u \<or> php_empty ?e \<or> php_empty ?p \<or> length ?u < 3
        \<or> \<not> filter_validate_email ?e \<or> length ?p < 6"
    using assms php_trim_length[of "or_empty username"]
    by (auto simp: php_empty_def php_trim_empty)
  then show ?thesis
    by (auto simp: php_register_def Let_def)
qed

text \<open>The Node handler refuses an empty field and a password shorter than six.\<close>

lemma register_validation:
  assumes "falsy username \<or> falsy email \<or> falsy password
           \<or> (\<exists>p. password = Some p \<and> length p < 6)"
  shows "fst (fst (register bcrypt_hash jwt_sign now username email password d)) = 400
       \<and> snd (register bcrypt_hash jwt_sign now username email password d) = d"
  using assms by (auto simp: register_def falsy_def split: option.splits)

text \<open>
  C7. The Node handler has neither the username's length check nor the email's format
  check of the PHP controller: the username \<^verbatim>\<open>ab\<close> with the email \<^verbatim>\<open>not-an-email\<close> is
  answered 201 and the user is created.
\<close>

theorem register_short_username:
  "length ''ab'' < 3
   \<and> fst (register (\<lambda>p. ''$2a$10$'' @ p) (\<lambda>i u. ''jwt.'' @ u) 300
        (Some ''ab'') (Some ''not-an-email'') (Some ''secret'') demo_db)
       = (201, UserBody ''User created successfully'' ''jwt.ab'' 3 ''ab'' ''not-an-email'' ''light'')
   \<and> map u_username (users (snd (register (\<lambda>p. ''$2a$10$'' @ p) (\<lambda>i u. ''jwt.'' @ u) 300
        (Some ''ab'') (Some ''not-an-email'') (Some ''secret'') demo_db)))
       = [''demo'', ''alice'', ''ab'']"
  by (simp add: register_def insert_user_def varchar_def demo_db_def)

section \<open>The theme preference\<close>

lemma update_theme_idem:
  "update_theme now' t uid (update_theme now t uid d) = update_theme now t uid d"
proof -
  have "map (\<lambda>r. if u_id r = uid \<and> u_theme r \<noteq> t then r\<lparr>u_theme := t, u_updated_at := now'\<rparr> else r)
          (map (\<lambda>r. if u_id r = uid \<and> u_theme r \<noteq> t then r\<lparr>u_theme := t, u_updated_at := now\<rparr> else r)
             (users d))
        = map (\<lambda>r. if u_id r = uid \<and> u_theme r \<noteq> t then r\<lparr>u_theme := t, u_updated_at := now\<rparr> else r)
             (users d)"
    by (induction "users d") auto
  then show ?thesis
    by (simp add: update_theme_def)
qed

lemma update_theme_enum:
  assumes "theme_enum t" and "\<forall>r \<in> set (users d). theme_enum (u_theme r)"
  shows "\<forall>r \<in> set (users (update_theme now t uid d)). theme_enum (u_theme r)"
  using assms by (auto simp: update_theme_def)

text \<open>
  The Node handler: a theme other than \<^verbatim>\<open>light\<close> and \<^verbatim>\<open>dark\<close> is answered 400 and
  the store is as it was; one of the two is answered 200 and written by the UPDATE, which
  a second identical request does not change again; users whose themes are of the two
  stay so.
\<close>

lemma updateTheme_node:
  "((\<forall>t. theme = Some t \<longrightarrow> \<not> theme_enum t) \<longrightarrow>
      updateTheme now uid theme d = ((400, ErrorBody ''Valid theme (light/dark) is required''), d))
   \<and> (\<forall>t. theme = Some t \<and> theme_enum t \<longrightarrow>
        updateTheme now uid theme d =
          ((200, ThemeBody ''Theme preference updated'' t), update_theme now t uid d)
      \<and> snd (updateTheme now' uid theme (update_theme now t uid d)) = update_theme now t uid d)
   \<and> ((\<forall>r \<in> set (users d). theme_enum (u_theme r)) \<longrightarrow>
        (\<forall>r \<in> set (users (snd (updateTheme now uid theme d))). theme_enum (u_theme r)))"
proof (intro conjI impI allI)
  assume "\<forall>t. theme = Some t \<longrightarrow> \<not> theme_enum t"
  then show "updateTheme now uid theme d = ((400, ErrorBody ''Valid theme (light/dark) is required''), d)"
    by (cases theme) (auto simp: updateTheme_def theme_enum_def)
next
  fix t assume t: "theme = Some t \<and> theme_enum t"
  then have v: "\<not> (t = [] \<or> t \<notin> set [''light'', ''dark''])"
    by (auto simp: theme_enum_def)
  show "updateTheme now uid theme d =
          ((200, ThemeBody ''Theme preference updated'' t), update_theme now t uid d)"
    using t v by (simp add: updateTheme_def)
  show "snd (updateTheme now' uid theme (update_theme now t uid d)) = update_theme now t uid d"
    using t v by (simp add: updateTheme_def update_theme_idem)
next
  assume inv: "\<forall>r \<in> set (users d). theme_enum (u_theme r)"
  show "\<forall>r \<in> set (users (snd (updateTheme now uid theme d))). theme_enum (u_theme r)"
  proof (cases theme)
    case None
    with inv show ?thesis by (simp add: updateTheme_def)
  next
    case (Some t)
    show ?thesis
    proof (cases "t = [] \<or> t \<notin> set [''light'', ''dark'']")
      case True
      with Some inv show ?thesis by (simp add: updateTheme_def)
    next
      case False
      then have "theme_enum t" by (auto simp: theme_enum_def)
      then have "\<forall>r \<in> set (users (update_theme now t uid d)). theme_enum (u_theme r)"
        using inv by (rule update_theme_enum)
      with Some False show ?thesis by (simp add: updateTheme_def)
    qed
  qed
qed

text \<open>
  C9. The PHP controller writes whatever theme it is given: \<^verbatim>\<open>purple\<close> is answered with
  success and stored.
\<close>

theorem php_updateTheme_purple:
  "\<not> theme_enum ''purple''
   \<and> fst (php_updateTheme 300 1 ''purple'' demo_db) = PhpSuccess
   \<and> map u_theme (users (snd (php_updateTheme 300 1 ''purple'' demo_db))) = [''purple'', ''dark'']
   \<and> map u_theme (users demo_db) = [''light'', ''dark'']"
  by (simp add: theme_enum_def php_updateTheme_def update_theme_def varchar_def demo_db_def)

section \<open>Renaming a chat to the name it has\<close>

lemma rename_row_same:
  assumes "c_name c = name"
  shows "rename_row now name c = c"
  using assms by (simp add: rename_row_def)

lemma update_chat_name_same:
  assumes same: "\<forall>c \<in> set (chats d). P c \<longrightarrow> c_name c = name"
    and fits: "varchar 255 name"
  shows "update_chat_name now name P d = Some (length (filter P (chats d)), 0, d)"
proof -
  have z: "filter (\<lambda>x. P x \<and> c_name x \<noteq> name) (chats d) = []"
    using same by (auto simp: filter_empty_conv)
  have "map (\<lambda>c. if P c then rename_row now name c else c) (chats d) = map (\<lambda>c. c) (chats d)"
    using same by (intro map_cong[OF refl]) (simp add: rename_row_def)
  then have k: "map (\<lambda>c. if P c then rename_row now name c else c) (chats d) = chats d"
    by simp
  show ?thesis
    using fits by (simp add: update_chat_name_def Let_def z k)
qed

text \<open>
  What PATCH answers to the owner who renames a chat to its present name depends on what
  the driver reports as \<^verbatim>\<open>affectedRows\<close>: 404 when it is the rows changed, 200 when it
  is the rows matched. The store is as it was in both cases.
\<close>

lemma updateChat_same_name:
  assumes own: "owns d uid cid"
    and same: "\<forall>c \<in> set (chats d). c_id c = cid \<and> c_user_id c = uid \<longrightarrow> c_name c = n"
    and n: "n \<noteq> []" "varchar 255 n"
  shows "updateChat False now uid cid (Some n) d = (chat_not_found, d)"
    and "updateChat True now uid cid (Some n) d = ((200, MessageBody ''Chat updated successfully''), d)"
proof -
  let ?P = "\<lambda>c. c_id c = cid \<and> c_user_id c = uid"
  have u: "update_chat_name now n ?P d = Some (length (filter ?P (chats d)), 0, d)"
    using same n(2) by (rule update_chat_name_same)
  have m: "length (filter ?P (chats d)) \<noteq> 0"
    using own by (auto simp: owns_def filter_empty_conv)
  show "updateChat False now uid cid (Some n) d = (chat_not_found, d)"
    using n(1) by (simp add: updateChat_def u affectedRows_def)
  show "updateChat True now uid cid (Some n) d = ((200, MessageBody ''Chat updated successfully''), d)"
    using n(1) m by (simp add: updateChat_def u affectedRows_def)
qed

lemma updateChat_same_name_demo:
  "updateChat False 300 1 ''c1'' (Some ''Test'') demo_db = (chat_not_found, demo_db)
   \<and> updateChat True 300 1 ''c1'' (Some ''Test'') demo_db
       = ((200, MessageBody ''Chat updated successfully''), demo_db)"
proof -
  have own: "owns demo_db 1 ''c1''"
    by (simp add: owns_def demo_db_def)
  have same: "\<forall>c \<in> set (chats demo_db). c_id c = ''c1'' \<and> c_user_id c = 1 \<longrightarrow> c_name c = ''Test''"
    by (simp add: demo_db_def)
  have n: "''Test'' \<noteq> []" "varchar 255 ''Test''"
    by (simp_all add: varchar_def)
  from updateChat_same_name[OF own same n, of 300] show ?thesis
    by (intro conjI)
qed

end
